theory Spec2Isabelle
  imports Main "HOL-Library.Sublist"
begin

section \<open>The playlist downloader: state store, ingestion, cadence\<close>

text \<open>
  A shallow embedding of the Go packages \<^verbatim>\<open>internal/database\<close>,
  \<^verbatim>\<open>internal/downloader\<close>, \<^verbatim>\<open>internal/validator\<close> and of the cadence functions
  of \<^verbatim>\<open>cmd/pp-downloader/main.go\<close>.

  The SQLite store is modelled by its two tables, each a list of rows in insertion order,
  and every SQL statement by its effect on the tables under the schema of
  \<^verbatim>\<open>createSchema\<close>. The error results of the store operations on the tables are those
  the schema's constraints produce; a failure of the database driver itself (I/O, a closed
  handle) is not a behaviour of the tables, and is a parameter of the ingestion, which
  branches on it. The external processes (the listing and the fetch through yt-dlp) and
  the file system (\<^verbatim>\<open>os.Stat\<close>) are parameters too. An instant is an
  integer count of nanoseconds; the clock readings taken inside one operation are
  identified with one reading \<open>now\<close>, passed in.
\<close>

subsection \<open>Strings\<close>

text \<open>\<^verbatim>\<open>strings.Contains\<close>: the substring occurs somewhere in the string.\<close>

fun Contains :: "string \<Rightarrow> string \<Rightarrow> bool" where
  "Contains [] substr = (substr = [])"
| "Contains (c # cs) substr = (prefix substr (c # cs) \<or> Contains cs substr)"

text \<open>
  \<^verbatim>\<open>strings.Split\<close> for a non-empty separator: the pieces between the occurrences of the
  separator, found from left to right without overlap. \<open>acc\<close> holds the current piece,
  reversed. The program splits at the literals \<^verbatim>\<open>list=\<close> and \<^verbatim>\<open>&\<close> only; for an empty
  separator (where Go splits after every UTF-8 sequence) the string is returned unsplit.
\<close>

function splitAcc :: "string \<Rightarrow> string \<Rightarrow> string \<Rightarrow> string list" where
  "splitAcc sep acc [] = [rev acc]"
| "splitAcc sep acc (c # cs) =
     (if sep \<noteq> [] \<and> prefix sep (c # cs)
      then rev acc # splitAcc sep [] (drop (length sep) (c # cs))
      else splitAcc sep (c # acc) cs)"
  by pat_completeness auto
termination
  by (relation "measure (\<lambda>(sep, acc, s). length s)") auto

definition Split :: "string \<Rightarrow> string \<Rightarrow> string list" where
  "Split s sep = splitAcc sep [] s"

subsection \<open>Sanitising a title into a file name (package database)\<close>

text \<open>The characters of the regular expression \<^verbatim>\<open>[<>:"/\\|?*]\<close>.\<close>

definition invalidChars :: "char list" where
  "invalidChars =
     [CHR ''<'', CHR ''>'', CHR '':'', CHR 0x22, CHR ''/'', CHR 0x5C, CHR ''|'', CHR ''?'',
      CHR ''*'']"

text \<open>The class \<^verbatim>\<open>\s\<close> of Go's regular expressions: tab, newline, form feed, return, space.\<close>

definition reSpace :: "char \<Rightarrow> bool" where
  "reSpace c = (c \<in> set [CHR 0x09, CHR 0x0A, CHR 0x0C, CHR 0x0D, CHR 0x20])"

text \<open>Replacing every maximal run matched by \<^verbatim>\<open>\s+\<close> with one space.\<close>

function collapseSpaces :: "string \<Rightarrow> string" where
  "collapseSpaces [] = []"
| "collapseSpaces (c # cs) =
     (if reSpace c then CHR 0x20 # collapseSpaces (dropWhile reSpace cs)
      else c # collapseSpaces cs)"
  by pat_completeness auto
termination
  by (relation "measure length") (auto simp: less_Suc_eq_le length_dropWhile_le)

text \<open>
  The UTF-8 encodings of the code points \<^verbatim>\<open>unicode.IsSpace\<close> accepts, which are what
  \<^verbatim>\<open>strings.TrimSpace\<close> strips from both ends of a string: the six ASCII ones, U+0085,
  U+00A0, U+1680, U+2000 to U+200A, U+2028, U+2029, U+202F, U+205F and U+3000.
\<close>

definition spaceRunes :: "string list" where
  "spaceRunes =
     [[CHR 0x09], [CHR 0x0A], [CHR 0x0B], [CHR 0x0C], [CHR 0x0D], [CHR 0x20],
      [CHR 0xC2, CHR 0x85], [CHR 0xC2, CHR 0xA0], [CHR 0xE1, CHR 0x9A, CHR 0x80],
      [CHR 0xE2, CHR 0x80, CHR 0x80], [CHR 0xE2, CHR 0x80, CHR 0x81],
      [CHR 0xE2, CHR 0x80, CHR 0x82], [CHR 0xE2, CHR 0x80, CHR 0x83],
      [CHR 0xE2, CHR 0x80, CHR 0x84], [CHR 0xE2, CHR 0x80, CHR 0x85],
      [CHR 0xE2, CHR 0x80, CHR 0x86], [CHR 0xE2, CHR 0x80, CHR 0x87],
      [CHR 0xE2, CHR 0x80, CHR 0x88], [CHR 0xE2, CHR 0x80, CHR 0x89],
      [CHR 0xE2, CHR 0x80, CHR 0x8A], [CHR 0xE2, CHR 0x80, CHR 0xA8],
      [CHR 0xE2, CHR 0x80, CHR 0xA9], [CHR 0xE2, CHR 0x80, CHR 0xAF],
      [CHR 0xE2, CHR 0x81, CHR 0x9F], [CHR 0xE3, CHR 0x80, CHR 0x80]]"

text \<open>The width in bytes of the space at the start (at the end) of a string, 0 if none.\<close>

definition leadingSpace :: "string \<Rightarrow> nat" where
  "leadingSpace s =
     (case List.find (\<lambda>r. prefix r s) spaceRunes of None \<Rightarrow> 0 | Some r \<Rightarrow> length r)"

definition trailingSpace :: "string \<Rightarrow> nat" where
  "trailingSpace s =
     (case List.find (\<lambda>r. suffix r s) spaceRunes of None \<Rightarrow> 0 | Some r \<Rightarrow> length r)"

function TrimLeft :: "string \<Rightarrow> string" where
  "TrimLeft s =
     (if leadingSpace s = 0 \<or> s = [] then s else TrimLeft (drop (leadingSpace s) s))"
  by pat_completeness auto
termination
  by (relation "measure length") auto

function TrimRight :: "string \<Rightarrow> string" where
  "TrimRight s =
     (if trailingSpace s = 0 \<or> s = [] then s
      else TrimRight (take (length s - trailingSpace s) s))"
  by pat_completeness auto
termination
  by (relation "measure length") auto

definition TrimSpace :: "string \<Rightarrow> string" where
  "TrimSpace s = TrimRight (TrimLeft s)"

definition sanitizeFilename :: "string \<Rightarrow> string" where
  "sanitizeFilename filename =
     TrimSpace (collapseSpaces (filter (\<lambda>c. c \<notin> set invalidChars) filename))"

subsection \<open>The state store: tables and rows\<close>

type_synonym time = int

text \<open>
  Errors: the invalid-URL error of \<^verbatim>\<open>ProcessPlaylist\<close>, a constraint of the schema refusing
  a statement, a failure reported from outside the process (yt-dlp, the JSON decoder, the
  file system, the database driver), and \<^verbatim>\<open>fmt.Errorf("...: %w", err)\<close> around another
  error.
\<close>

datatype error =
  InvalidPlaylistURL string
| UniqueConstraint string
| External string
| Wrapped string error

text \<open>\<^verbatim>\<open>database.VideoMetadata\<close>.\<close>

record VideoMetadata =
  Title :: string
  Description :: string
  Channel :: string
  ChannelID :: string
  Duration :: int
  ViewCount :: int
  ThumbnailURL :: string
  UploadDate :: time
  IsLive :: bool
  LiveStartTime :: time
  LiveEndTime :: time
  MetadataJSON :: string

text \<open>
  A row of table \<^verbatim>\<open>playlists\<close>, which is also what \<^verbatim>\<open>database.Playlist\<close> holds after
  a scan of the row. A nullable column is an option.
\<close>

record Playlist =
  pl_id :: int
  pl_youtube_id :: string
  pl_title :: string
  pl_description :: "string option"
  pl_thumbnail :: "string option"
  pl_channel :: "string option"
  pl_channel_id :: "string option"
  pl_video_count :: int
  pl_last_checked :: time
  pl_created_at :: time
  pl_updated_at :: time

text \<open>
  A row of table \<^verbatim>\<open>videos\<close>. The columns \<^verbatim>\<open>title\<close> to \<^verbatim>\<open>metadata_json\<close> are the
  metadata block. The surrogate key \<^verbatim>\<open>id\<close>, \<^verbatim>\<open>file_checksum\<close> and \<^verbatim>\<open>downloaded_at\<close>
  are read and written by no statement of the program and are left out.
\<close>

record Video =
  v_youtube_id :: string
  v_playlist_id :: int
  v_playlist_title :: string
  v_metadata :: VideoMetadata
  v_file_path :: "string option"
  v_file_size :: int
  v_validation_status :: string
  v_last_validated :: "time option"
  v_created_at :: time
  v_updated_at :: time

text \<open>
  The store: both tables and the \<^verbatim>\<open>AUTOINCREMENT\<close> counter of \<^verbatim>\<open>playlists\<close> (the
  largest key handed out so far).
\<close>

record database =
  playlists :: "Playlist list"
  videos :: "Video list"
  playlist_seq :: int

definition emptyDatabase :: database where
  "emptyDatabase = \<lparr>playlists = [], videos = [], playlist_seq = 0\<rparr>"

text \<open>\<^verbatim>\<open>SELECT ... FROM playlists WHERE youtube_id = ?\<close>, scanned as one row.\<close>

definition selectPlaylist :: "database \<Rightarrow> string \<Rightarrow> Playlist option" where
  "selectPlaylist db youtubeID = List.find (\<lambda>p. pl_youtube_id p = youtubeID) (playlists db)"

text \<open>
  \<^verbatim>\<open>INSERT INTO playlists (youtube_id, title, ...)\<close>: refused by \<^verbatim>\<open>youtube_id UNIQUE\<close> when
  a row has the identifier; otherwise the new row gets the next key, a count of 0 and the
  current timestamp three times. Returns \<^verbatim>\<open>LastInsertId\<close>.
\<close>

definition insertPlaylist ::
  "time \<Rightarrow> database \<Rightarrow> string \<Rightarrow> string \<Rightarrow> (error + int) \<times> database" where
  "insertPlaylist now db youtubeID title =
     (if youtubeID \<in> set (map pl_youtube_id (playlists db))
      then (Inl (UniqueConstraint ''playlists.youtube_id''), db)
      else
        (let newID = playlist_seq db + 1;
             row = \<lparr>pl_id = newID, pl_youtube_id = youtubeID, pl_title = title,
                    pl_description = None, pl_thumbnail = None, pl_channel = None,
                    pl_channel_id = None, pl_video_count = 0, pl_last_checked = now,
                    pl_created_at = now, pl_updated_at = now\<rparr>
         in (Inr newID, db\<lparr>playlists := playlists db @ [row], playlist_seq := newID\<rparr>)))"

text \<open>
  \<^verbatim>\<open>(*Database).GetOrCreatePlaylist\<close>, in its own transaction: the row with the identifier
  as it is stored, or a new row. A failed insert rolls the transaction back.
\<close>

definition GetOrCreatePlaylist ::
  "time \<Rightarrow> database \<Rightarrow> string \<Rightarrow> string \<Rightarrow> (error + Playlist) \<times> database" where
  "GetOrCreatePlaylist now db youtubeID title =
     (case selectPlaylist db youtubeID of
        Some playlist \<Rightarrow> (Inr playlist, db)
      | None \<Rightarrow>
          (case insertPlaylist now db youtubeID title of
             (Inl e, _) \<Rightarrow> (Inl (Wrapped ''failed to insert playlist'' e), db)
           | (Inr newID, db') \<Rightarrow>
               (Inr \<lparr>pl_id = newID, pl_youtube_id = youtubeID, pl_title = title,
                     pl_description = None, pl_thumbnail = None, pl_channel = None,
                     pl_channel_id = None, pl_video_count = 0, pl_last_checked = now,
                     pl_created_at = now, pl_updated_at = now\<rparr>, db')))"

text \<open>
  \<^verbatim>\<open>(*Database).getOrCreatePlaylist\<close>, inside the caller's transaction \<open>tx\<close>: an existing
  row has its title updated when it differs; the function then goes on to the insert in
  either case. The transaction's tables are returned with the result: the caller decides
  whether to commit them.
\<close>

definition getOrCreatePlaylist ::
  "time \<Rightarrow> database \<Rightarrow> string \<Rightarrow> string \<Rightarrow> (error + int) \<times> database" where
  "getOrCreatePlaylist now tx youtubeID title =
     (let tx' =
        (case selectPlaylist tx youtubeID of
           Some existing \<Rightarrow>
             (if pl_title existing \<noteq> title
              then tx\<lparr>playlists :=
                     map (\<lambda>p. if pl_id p = pl_id existing
                              then p\<lparr>pl_title := title, pl_updated_at := now\<rparr> else p)
                       (playlists tx)\<rparr>
              else tx)
         | None \<Rightarrow> tx)
      in case insertPlaylist now tx' youtubeID title of
           (Inl e, tx'') \<Rightarrow> (Inl (Wrapped ''failed to create playlist'' e), tx'')
         | (Inr newID, tx'') \<Rightarrow> (Inr newID, tx''))"

text \<open>\<^verbatim>\<open>(*Database).VideoExists\<close>.\<close>

definition VideoExists :: "database \<Rightarrow> string \<Rightarrow> error + bool" where
  "VideoExists db youtubeID = Inr (youtubeID \<in> set (map v_youtube_id (videos db)))"

text \<open>
  \<^verbatim>\<open>INSERT INTO videos ... ON CONFLICT(youtube_id) DO UPDATE SET ...\<close>: a row with the
  identifier has the listed columns overwritten; otherwise a row is appended.
\<close>

definition upsertVideo ::
  "time \<Rightarrow> string \<Rightarrow> int \<Rightarrow> string \<Rightarrow> VideoMetadata \<Rightarrow> string \<Rightarrow> int \<Rightarrow> string \<Rightarrow> time \<Rightarrow>
   Video list \<Rightarrow> Video list" where
  "upsertVideo now youtubeID playlistID playlistTitle metadata filePath fileSize status
       validated rows =
     (if youtubeID \<in> set (map v_youtube_id rows)
      then map (\<lambda>v. if v_youtube_id v = youtubeID
                    then v\<lparr>v_playlist_id := playlistID, v_playlist_title := playlistTitle,
                           v_metadata := metadata, v_file_path := Some filePath,
                           v_file_size := fileSize, v_validation_status := status,
                           v_last_validated := Some validated, v_updated_at := now\<rparr>
                    else v) rows
      else rows @
        [\<lparr>v_youtube_id = youtubeID, v_playlist_id = playlistID,
          v_playlist_title = playlistTitle, v_metadata = metadata,
          v_file_path = Some filePath, v_file_size = fileSize,
          v_validation_status = status, v_last_validated = Some validated,
          v_created_at = now, v_updated_at = now\<rparr>])"

text \<open>\<^verbatim>\<open>SELECT COUNT( * ) FROM videos WHERE playlist_id = ?\<close>.\<close>

definition countVideos :: "Video list \<Rightarrow> int \<Rightarrow> int" where
  "countVideos rows playlistID = int (length (filter (\<lambda>v. v_playlist_id v = playlistID) rows))"

text \<open>
  \<^verbatim>\<open>(*Database).AddVideo\<close>: the file path is made from the title and the identifier; the
  playlist is fetched or created (committed on its own); the video row is upserted with
  that path, size 0 and status pending; the playlist's \<^verbatim>\<open>last_checked\<close> and
  \<^verbatim>\<open>video_count\<close> are refreshed.
\<close>

definition AddVideo ::
  "time \<Rightarrow> database \<Rightarrow> string \<Rightarrow> string \<Rightarrow> string \<Rightarrow> VideoMetadata \<Rightarrow> error option \<times> database"
  where
  "AddVideo now db youtubeID playlistYoutubeID playlistTitle metadata =
     (let safeTitle = sanitizeFilename (Title metadata);
          filePath = ''.music/'' @ safeTitle @ '' ['' @ youtubeID @ ''].mp3''
      in case GetOrCreatePlaylist now db playlistYoutubeID playlistTitle of
           (Inl e, db1) \<Rightarrow> (Some (Wrapped ''failed to get or create playlist'' e), db1)
         | (Inr playlist, db1) \<Rightarrow>
             (let rows = upsertVideo now youtubeID (pl_id playlist) playlistTitle metadata
                           filePath 0 ''pending'' now (videos db1)
              in (None,
                  db1\<lparr>videos := rows,
                      playlists :=
                        map (\<lambda>p. if pl_id p = pl_id playlist
                                 then p\<lparr>pl_last_checked := now, pl_updated_at := now,
                                        pl_video_count := countVideos rows (pl_id playlist)\<rparr>
                                 else p)
                          (playlists db1)\<rparr>)))"

text \<open>\<^verbatim>\<open>(*Database).UpdateFileInfo\<close>: one \<^verbatim>\<open>UPDATE videos ... WHERE youtube_id = ?\<close>.\<close>

definition UpdateFileInfo ::
  "time \<Rightarrow> database \<Rightarrow> string \<Rightarrow> string \<Rightarrow> int \<Rightarrow> error option \<times> database" where
  "UpdateFileInfo now db youtubeID filePath fileSize =
     (None,
      db\<lparr>videos :=
           map (\<lambda>v. if v_youtube_id v = youtubeID
                    then v\<lparr>v_file_path := Some filePath, v_file_size := fileSize,
                           v_validation_status := ''valid'', v_last_validated := Some now,
                           v_updated_at := now\<rparr>
                    else v)
             (videos db)\<rparr>)"

subsection \<open>Validation sweep and clean-up\<close>

text \<open>The three outcomes of \<^verbatim>\<open>os.Stat\<close> the program tells apart.\<close>

datatype stat_result = StatOK | StatNotExist | StatError

text \<open>
  The rows \<^verbatim>\<open>ValidateFiles\<close> selects: \<^verbatim>\<open>file_path IS NOT NULL AND file_path != ''\<close>.
\<close>

definition rowsWithFile :: "database \<Rightarrow> (string \<times> string) list" where
  "rowsWithFile db =
     List.map_filter
       (\<lambda>v. case v_file_path v of
              None \<Rightarrow> None
            | Some filePath \<Rightarrow> if filePath \<noteq> [] then Some (v_youtube_id v, filePath) else None)
       (videos db)"

definition statusOf :: "stat_result \<Rightarrow> string" where
  "statusOf r = (case r of StatNotExist \<Rightarrow> ''missing'' | StatError \<Rightarrow> ''error'' | StatOK \<Rightarrow> ''valid'')"

text \<open>The loop of \<^verbatim>\<open>ValidateFiles\<close> over the selected rows; \<open>checked\<close> is its counter.\<close>

fun validateRows ::
  "(string \<Rightarrow> stat_result) \<Rightarrow> time \<Rightarrow> (string \<times> string) list \<Rightarrow> database \<Rightarrow> nat \<Rightarrow> nat \<times> database"
  where
  "validateRows stat now [] tx checked = (checked, tx)"
| "validateRows stat now ((youtubeID, filePath) # rows) tx checked =
     validateRows stat now rows
       (tx\<lparr>videos :=
            map (\<lambda>v. if v_youtube_id v = youtubeID
                     then v\<lparr>v_validation_status := statusOf (stat filePath),
                            v_last_validated := Some now, v_updated_at := now\<rparr>
                     else v)
              (videos tx)\<rparr>)
       (checked + 1)"

text \<open>\<^verbatim>\<open>(*Database).ValidateFiles\<close>; \<open>now\<close> is read once, before the loop.\<close>

definition ValidateFiles ::
  "(string \<Rightarrow> stat_result) \<Rightarrow> time \<Rightarrow> database \<Rightarrow> (error + nat) \<times> database" where
  "ValidateFiles stat now db =
     (case validateRows stat now (rowsWithFile db) db 0 of
        (checked, tx) \<Rightarrow> (Inr checked, tx))"

text \<open>
  The rows \<^verbatim>\<open>CleanupMissingFiles\<close> selects:
  \<^verbatim>\<open>file_path IS NOT NULL AND validation_status = 'missing'\<close>.
\<close>

definition rowsMissing :: "database \<Rightarrow> (string \<times> string) list" where
  "rowsMissing db =
     List.map_filter
       (\<lambda>v. case v_file_path v of
              None \<Rightarrow> None
            | Some filePath \<Rightarrow>
                if v_validation_status v = ''missing'' then Some (v_youtube_id v, filePath)
                else None)
       (videos db)"

fun cleanupRows ::
  "(string \<Rightarrow> stat_result) \<Rightarrow> (string \<times> string) list \<Rightarrow> database \<Rightarrow> nat \<Rightarrow> nat \<times> database"
  where
  "cleanupRows stat [] tx deleted = (deleted, tx)"
| "cleanupRows stat ((youtubeID, filePath) # rows) tx deleted =
     (if stat filePath = StatNotExist
      then cleanupRows stat rows
             (tx\<lparr>videos := filter (\<lambda>v. v_youtube_id v \<noteq> youtubeID) (videos tx)\<rparr>)
             (deleted + 1)
      else cleanupRows stat rows tx deleted)"

text \<open>\<^verbatim>\<open>(*Validator).CleanupMissingFiles\<close>.\<close>

definition CleanupMissingFiles ::
  "(string \<Rightarrow> stat_result) \<Rightarrow> database \<Rightarrow> (error + nat) \<times> database" where
  "CleanupMissingFiles stat db =
     (case cleanupRows stat (rowsMissing db) db 0 of
        (deleted, tx) \<Rightarrow> (Inr deleted, tx))"

subsection \<open>Ingestion (package downloader)\<close>

text \<open>
  \<^verbatim>\<open>extractPlaylistID\<close> of package downloader. \<^verbatim>\<open>Split\<close> never returns an empty list,
  so the element at index 0 is its head.
\<close>

definition extractPlaylistID :: "string \<Rightarrow> string" where
  "extractPlaylistID url =
     (if \<not> Contains url ''youtube.com'' \<and> \<not> Contains url ''youtu.be'' then url
      else if Contains url ''list='' then
        (let parts = Split url ''list='' in
         if length parts > 1 then
           (let token = hd (Split (parts ! 1) ''&'') in
            if token \<noteq> [] then token else url)
         else url)
      else url)"

text \<open>
  An entry of the listing, \<^verbatim>\<open>VideoInfo\<close>. Its descriptive fields are held as the
  \<^verbatim>\<open>database.VideoMetadata\<close> that \<^verbatim>\<open>ProcessPlaylist\<close> builds from them (the duration
  truncated to an integer, the upload date parsed with the layout \<^verbatim>\<open>20060102\<close>, the zero
  time when that fails).
\<close>

record VideoInfo =
  ID :: string
  PlaylistID :: string
  Info :: VideoMetadata

text \<open>The calls \<^verbatim>\<open>ProcessPlaylist\<close> makes to the store, with the identifier they are about.\<close>

datatype store_call =
  GetOrCreatePlaylistCall string
| VideoExistsCall string
| AddVideoCall string
| UpdateFileInfoCall string

text \<open>
  What lies outside the process during one call of \<^verbatim>\<open>ProcessPlaylist\<close>: the clock; for a
  playlist URL, the entries yt-dlp lists and \<^verbatim>\<open>json.Unmarshal\<close> decodes, or the failure of
  either; for a video identifier and a playlist name, the outcome of \<^verbatim>\<open>downloadVideo\<close>
  (the file's path and size, or an error); and for a call to the store, the error of the
  database driver when the call fails for a reason outside the tables.
\<close>

record env =
  clock :: time
  listing :: "string \<Rightarrow> error + VideoInfo list"
  download :: "string \<Rightarrow> string \<Rightarrow> error + string \<times> int"
  storeFailure :: "store_call \<Rightarrow> error option"

text \<open>
  The store as the downloader sees it: a call either fails in the driver, leaving the
  tables as they are (its statement fails or its transaction is rolled back), or is the
  operation on the tables.
\<close>

definition dbGetOrCreatePlaylist ::
  "env \<Rightarrow> database \<Rightarrow> string \<Rightarrow> string \<Rightarrow> (error + Playlist) \<times> database" where
  "dbGetOrCreatePlaylist e db youtubeID title =
     (case storeFailure e (GetOrCreatePlaylistCall youtubeID) of
        Some err \<Rightarrow> (Inl err, db)
      | None \<Rightarrow> GetOrCreatePlaylist (clock e) db youtubeID title)"

definition dbVideoExists :: "env \<Rightarrow> database \<Rightarrow> string \<Rightarrow> error + bool" where
  "dbVideoExists e db youtubeID =
     (case storeFailure e (VideoExistsCall youtubeID) of
        Some err \<Rightarrow> Inl err
      | None \<Rightarrow> VideoExists db youtubeID)"

definition dbAddVideo ::
  "env \<Rightarrow> database \<Rightarrow> string \<Rightarrow> string \<Rightarrow> string \<Rightarrow> VideoMetadata \<Rightarrow> error option \<times> database"
  where
  "dbAddVideo e db youtubeID playlistYoutubeID playlistTitle metadata =
     (case storeFailure e (AddVideoCall youtubeID) of
        Some err \<Rightarrow> (Some err, db)
      | None \<Rightarrow> AddVideo (clock e) db youtubeID playlistYoutubeID playlistTitle metadata)"

definition dbUpdateFileInfo ::
  "env \<Rightarrow> database \<Rightarrow> string \<Rightarrow> string \<Rightarrow> int \<Rightarrow> error option \<times> database" where
  "dbUpdateFileInfo e db youtubeID filePath fileSize =
     (case storeFailure e (UpdateFileInfoCall youtubeID) of
        Some err \<Rightarrow> (Some err, db)
      | None \<Rightarrow> UpdateFileInfo (clock e) db youtubeID filePath fileSize)"

text \<open>\<^verbatim>\<open>getPlaylistVideos\<close>: entries with an empty identifier are dropped.\<close>

definition getPlaylistVideos :: "env \<Rightarrow> string \<Rightarrow> error + VideoInfo list" where
  "getPlaylistVideos e playlistURL =
     (case listing e playlistURL of
        Inl err \<Rightarrow> Inl err
      | Inr entries \<Rightarrow>
          Inr (map (\<lambda>entry. entry\<lparr>PlaylistID := extractPlaylistID playlistURL\<rparr>)
                 (filter (\<lambda>entry. ID entry \<noteq> []) entries)))"

text \<open>
  The loop of \<^verbatim>\<open>ProcessPlaylist\<close> over the listed videos. It returns the store and the
  calls made to the callback, in order, each \<open>(videoID, downloaded)\<close>. Every
  \<^verbatim>\<open>continue\<close> of the source is a recursive call on the rest of the list; a failure of
  \<^verbatim>\<open>UpdateFileInfo\<close> is logged only.
\<close>

fun processVideos ::
  "env \<Rightarrow> Playlist \<Rightarrow> string \<Rightarrow> VideoInfo list \<Rightarrow> database \<Rightarrow> database \<times> (string \<times> bool) list"
  where
  "processVideos e playlist playlistName [] db = (db, [])"
| "processVideos e playlist playlistName (video # rest) db =
     (case dbVideoExists e db (ID video) of
        Inl err \<Rightarrow> processVideos e playlist playlistName rest db
      | Inr True \<Rightarrow>
          (case processVideos e playlist playlistName rest db of
             (db', calls) \<Rightarrow> (db', (ID video, False) # calls))
      | Inr False \<Rightarrow>
          (case download e (ID video) playlistName of
             Inl err \<Rightarrow> processVideos e playlist playlistName rest db
           | Inr (filePath, fileSize) \<Rightarrow>
               (case dbAddVideo e db (ID video) (pl_youtube_id playlist) (pl_title playlist)
                       ((Info video)\<lparr>IsLive := False\<rparr>) of
                  (Some err, db1) \<Rightarrow> processVideos e playlist playlistName rest db1
                | (None, db1) \<Rightarrow>
                    (case dbUpdateFileInfo e db1 (ID video) filePath fileSize of
                       (_, db2) \<Rightarrow>
                         (case processVideos e playlist playlistName rest db2 of
                            (db', calls) \<Rightarrow> (db', (ID video, True) # calls))))))"

text \<open>
  \<^verbatim>\<open>(*Downloader).ProcessPlaylist\<close>: the error returned (\<open>None\<close> for \<^verbatim>\<open>nil\<close>), the
  store afterwards and the calls made to the callback.
\<close>

definition ProcessPlaylist ::
  "env \<Rightarrow> database \<Rightarrow> string \<Rightarrow> string \<Rightarrow> error option \<times> database \<times> (string \<times> bool) list" where
  "ProcessPlaylist e db playlistURL playlistName =
     (let playlistID = extractPlaylistID playlistURL in
      if playlistID = [] then (Some (InvalidPlaylistURL playlistURL), db, [])
      else
        (case dbGetOrCreatePlaylist e db playlistID playlistName of
           (Inl err, db1) \<Rightarrow> (Some (Wrapped ''failed to get or create playlist'' err), db1, [])
         | (Inr playlist, db1) \<Rightarrow>
             (case getPlaylistVideos e playlistURL of
                Inl err \<Rightarrow> (Some (Wrapped ''failed to get playlist videos'' err), db1, [])
              | Inr vids \<Rightarrow>
                  if length vids = 0 then (None, db1, [])
                  else
                    (case processVideos e playlist playlistName vids db1 of
                       (db2, calls) \<Rightarrow> (None, db2, calls)))))"

subsection \<open>Adaptive polling (package main)\<close>

text \<open>
  \<^verbatim>\<open>time.Duration\<close> is a signed 64-bit count of nanoseconds, and \<^verbatim>\<open>Time.Sub\<close>
  saturates at its bounds.
\<close>

type_synonym duration = int

definition maxDuration :: duration where
  "maxDuration = 2 ^ 63 - 1"

definition minDuration :: duration where
  "minDuration = - (2 ^ 63)"

definition Sub :: "time \<Rightarrow> time \<Rightarrow> duration" where
  "Sub t u =
     (if t - u > maxDuration then maxDuration
      else if t - u < minDuration then minDuration
      else t - u)"

definition Second :: duration where
  "Second = 1000000000"

definition Minute :: duration where
  "Minute = 60 * Second"

definition Hour :: duration where
  "Hour = 60 * Minute"

record playlistState =
  lastChecked :: time
  lastChange :: time
  interval :: duration

text \<open>\<^verbatim>\<open>(*playlistState).calculateInterval\<close>, with the clock reading it takes.\<close>

definition calculateInterval :: "playlistState \<Rightarrow> time \<Rightarrow> duration" where
  "calculateInterval ps now =
     (if Sub now (lastChange ps) < Hour * 24 then Minute * 5 else Minute * 15)"

text \<open>\<^verbatim>\<open>(*playlistState).updateState\<close>.\<close>

definition updateState :: "playlistState \<Rightarrow> time \<Rightarrow> bool \<Rightarrow> playlistState" where
  "updateState ps now changed =
     (if changed then ps\<lparr>lastChecked := now, lastChange := now\<rparr>
      else ps\<lparr>lastChecked := now\<rparr>)"

text \<open>
  \<^verbatim>\<open>extractPlaylistID\<close> of package main: the text between the first \<^verbatim>\<open>list=\<close> and the
  next \<^verbatim>\<open>&\<close>; a reference without \<^verbatim>\<open>list=\<close> is refused with the invalid-URL error.
\<close>

definition extractPlaylistID_main :: "string \<Rightarrow> error + string" where
  "extractPlaylistID_main url =
     (let parts = Split url ''list='' in
      if length parts < 2 then Inl (InvalidPlaylistURL url)
      else Inr (takeWhile (\<lambda>c. c \<noteq> CHR ''&'') (parts ! 1)))"

subsection \<open>Sample rows and listings\<close>

text \<open>Concrete values at which the theorems below are instantiated.\<close>

definition sampleMetadata :: "string \<Rightarrow> VideoMetadata" where
  "sampleMetadata title =
     \<lparr>Title = title, Description = ''about'', Channel = ''channel'', ChannelID = ''UC1'',
      Duration = 300, ViewCount = 1000, ThumbnailURL = [], UploadDate = 0, IsLive = False,
      LiveStartTime = 0, LiveEndTime = 0, MetadataJSON = []\<rparr>"

definition sampleVideo :: "string \<Rightarrow> int \<Rightarrow> string option \<Rightarrow> string \<Rightarrow> Video" where
  "sampleVideo youtubeID playlistID filePath status =
     \<lparr>v_youtube_id = youtubeID, v_playlist_id = playlistID, v_playlist_title = ''Jazz'',
      v_metadata = sampleMetadata ''Song'', v_file_path = filePath, v_file_size = 0,
      v_validation_status = status, v_last_validated = None, v_created_at = 0,
      v_updated_at = 0\<rparr>"

definition samplePlaylist :: "int \<Rightarrow> string \<Rightarrow> string \<Rightarrow> int \<Rightarrow> Playlist" where
  "samplePlaylist playlistID youtubeID title n =
     \<lparr>pl_id = playlistID, pl_youtube_id = youtubeID, pl_title = title, pl_description = None,
      pl_thumbnail = None, pl_channel = None, pl_channel_id = None, pl_video_count = n,
      pl_last_checked = 0, pl_created_at = 0, pl_updated_at = 0\<rparr>"

definition sampleEntry :: "string \<Rightarrow> VideoInfo" where
  "sampleEntry videoID = \<lparr>ID = videoID, PlaylistID = [], Info = sampleMetadata videoID\<rparr>"

definition sampleEnv :: "VideoInfo list \<Rightarrow> (string \<Rightarrow> bool) \<Rightarrow> env" where
  "sampleEnv entries fetched =
     \<lparr>clock = 5,
      listing = (\<lambda>url. Inr entries),
      download =
        (\<lambda>videoID name.
           if fetched videoID then Inr (''/music/'' @ name @ ''/'' @ videoID @ ''.mp3'', 4096)
           else Inl (External ''yt-dlp download failed'')),
      storeFailure = (\<lambda>call. None)\<rparr>"

definition offlineEnv :: env where
  "offlineEnv =
     \<lparr>clock = 5, listing = (\<lambda>url. Inl (External ''yt-dlp failed'')),
      download = (\<lambda>videoID name. Inl (External ''yt-dlp download failed'')),
      storeFailure = (\<lambda>call. None)\<rparr>"

definition sampleStat :: "string \<Rightarrow> stat_result" where
  "sampleStat filePath =
     (if filePath = ''/music/a.mp3'' then StatOK
      else if filePath = ''/music/denied.mp3'' then StatError
      else StatNotExist)"

definition sampleStore :: database where
  "sampleStore =
     \<lparr>playlists = [samplePlaylist 1 ''PL1'' ''Jazz'' 4],
      videos =
        [sampleVideo ''v1'' 1 (Some ''/music/a.mp3'') ''pending'',
         sampleVideo ''v2'' 1 (Some ''/music/gone.mp3'') ''valid'',
         sampleVideo ''v3'' 1 (Some ''/music/denied.mp3'') ''pending'',
         sampleVideo ''v4'' 1 (Some []) ''pending''],
      playlist_seq = 1\<rparr>"

subsection \<open>The claims' words as definitions\<close>

text \<open>A row has a file location: the column is not null and not the empty string.\<close>

definition hasFile :: "Video \<Rightarrow> bool" where
  "hasFile v = (case v_file_path v of None \<Rightarrow> False | Some filePath \<Rightarrow> filePath \<noteq> [])"

text \<open>
  What a validation sweep at \<open>now\<close> is said to do to one row: a row with a file location
  gets the status valid, missing or error after the outcome of the stat of its path, and
  \<open>now\<close> as validation and update timestamps; any other row is left alone.
\<close>

definition validatedRow :: "(string \<Rightarrow> stat_result) \<Rightarrow> time \<Rightarrow> Video \<Rightarrow> Video" where
  "validatedRow stat now v =
     (case v_file_path v of
        None \<Rightarrow> v
      | Some filePath \<Rightarrow>
          if filePath = [] then v
          else v\<lparr>v_validation_status :=
                   (case stat filePath of
                      StatOK \<Rightarrow> ''valid'' | StatNotExist \<Rightarrow> ''missing'' | StatError \<Rightarrow> ''error''),
                 v_last_validated := Some now, v_updated_at := now\<rparr>)"

text \<open>The update one iteration of the sweep makes to the rows it matches.\<close>

definition stamp :: "(string \<Rightarrow> stat_result) \<Rightarrow> time \<Rightarrow> string \<Rightarrow> Video \<Rightarrow> Video" where
  "stamp stat now filePath v =
     v\<lparr>v_validation_status := statusOf (stat filePath), v_last_validated := Some now,
       v_updated_at := now\<rparr>"

text \<open>
  The file location of the form \<^verbatim>\<open>.music/<sanitized title> [<id>].mp3\<close>.
\<close>

definition generatedPath :: "VideoMetadata \<Rightarrow> string \<Rightarrow> string" where
  "generatedPath metadata youtubeID =
     ''.music/'' @ sanitizeFilename (Title metadata) @ '' ['' @ youtubeID @ ''].mp3''"

definition oneSong :: env where
  "oneSong = sampleEnv [sampleEntry ''v1''] (\<lambda>videoID. True)"




definition threeSongs :: env where
  "threeSongs =
     sampleEnv [sampleEntry ''v1'', sampleEntry ''v2'', sampleEntry ''v3'']
       (\<lambda>videoID. videoID \<noteq> ''v2'')"

text \<open>
  Three songs that are all fetched, with a store that fails on recording the file of the
  second.
\<close>

definition threeSongsUnrecorded :: env where
  "threeSongsUnrecorded =
     (sampleEnv [sampleEntry ''v1'', sampleEntry ''v2'', sampleEntry ''v3''] (\<lambda>videoID. True))
       \<lparr>storeFailure :=
          (\<lambda>call. if call = UpdateFileInfoCall ''v2'' then Some (External ''disk I/O error'')
                   else None)\<rparr>"

text \<open>
  The store after one ingestion of the playlist \<^verbatim>\<open>PL1\<close> under the name Jazz, after a
  second one under the name Blues, and after the first one followed by a validation sweep
  and a clean-up at a time when the fetched file is gone.
\<close>

definition ingestedOnce :: database where
  "ingestedOnce = fst (snd (ProcessPlaylist oneSong emptyDatabase ''PL1'' ''Jazz''))"

definition ingestedTwice :: database where
  "ingestedTwice = fst (snd (ProcessPlaylist oneSong ingestedOnce ''PL1'' ''Blues''))"

definition sweptAndCleaned :: database where
  "sweptAndCleaned =
     snd (CleanupMissingFiles sampleStat (snd (ValidateFiles sampleStat 9 ingestedOnce)))"

subsection \<open>The claims' words as definitions, continued\<close>

text \<open>
  Every playlist's stored \<^verbatim>\<open>video_count\<close> is the number of video rows that reference
  the playlist.
\<close>

definition countsOK :: "database \<Rightarrow> bool" where
  "countsOK db =
     list_all (\<lambda>p. pl_video_count p = countVideos (videos db) (pl_id p)) (playlists db)"

text \<open>
  The row a playlist gets when it is first met: the supplied title, no videos, and the
  three timestamps of the moment.
\<close>

definition newPlaylist :: "time \<Rightarrow> int \<Rightarrow> string \<Rightarrow> string \<Rightarrow> Playlist" where
  "newPlaylist now playlistID youtubeID title =
     \<lparr>pl_id = playlistID, pl_youtube_id = youtubeID, pl_title = title, pl_description = None,
      pl_thumbnail = None, pl_channel = None, pl_channel_id = None, pl_video_count = 0,
      pl_last_checked = now, pl_created_at = now, pl_updated_at = now\<rparr>"

text \<open>
  The failures after which the loop gives an item up and goes on to the next one (the
  three \<^verbatim>\<open>continue\<close> statements after an error): the store fails on the existence check,
  the fetch returns an error, or the store fails on adding the video.
\<close>

definition itemAbandoned :: "env \<Rightarrow> string \<Rightarrow> VideoInfo \<Rightarrow> bool" where
  "itemAbandoned e playlistName video =
     (isl (download e (ID video) playlistName)
      \<or> storeFailure e (VideoExistsCall (ID video)) \<noteq> None
      \<or> storeFailure e (AddVideoCall (ID video)) \<noteq> None)"

text \<open>The store fails on recording the file of an item (\<^verbatim>\<open>UpdateFileInfo\<close>).\<close>

definition fileInfoFails :: "env \<Rightarrow> VideoInfo \<Rightarrow> bool" where
  "fileInfoFails e video = (storeFailure e (UpdateFileInfoCall (ID video)) \<noteq> None)"

text \<open>
  Fetching or persisting an item fails: one of the steps taken for a new item (existence
  check, fetch, adding the video, recording its file) fails.
\<close>

definition itemFails :: "env \<Rightarrow> string \<Rightarrow> VideoInfo \<Rightarrow> bool" where
  "itemFails e playlistName video =
     (itemAbandoned e playlistName video \<or> fileInfoFails e video)"

subsection \<open>The ingestion loop, one iteration at a time\<close>

text \<open>
  The entries \<^verbatim>\<open>getPlaylistVideos\<close> returns for a decoded listing, and the body of the loop
  of \<^verbatim>\<open>ProcessPlaylist\<close> for one video: the store it leaves and the callback call it makes,
  if any. \<open>processVideos\<close> is shown below to run this body over the list.
\<close>

definition listedVideos :: "string \<Rightarrow> VideoInfo list \<Rightarrow> VideoInfo list" where
  "listedVideos playlistURL entries =
     map (\<lambda>entry. entry\<lparr>PlaylistID := extractPlaylistID playlistURL\<rparr>)
       (filter (\<lambda>entry. ID entry \<noteq> []) entries)"

definition processVideo ::
  "env \<Rightarrow> Playlist \<Rightarrow> string \<Rightarrow> VideoInfo \<Rightarrow> database \<Rightarrow> database \<times> (string \<times> bool) list" where
  "processVideo e playlist playlistName video db =
     (case dbVideoExists e db (ID video) of
        Inl err \<Rightarrow> (db, [])
      | Inr True \<Rightarrow> (db, [(ID video, False)])
      | Inr False \<Rightarrow>
          (case download e (ID video) playlistName of
             Inl err \<Rightarrow> (db, [])
           | Inr (filePath, fileSize) \<Rightarrow>
               (case dbAddVideo e db (ID video) (pl_youtube_id playlist) (pl_title playlist)
                       ((Info video)\<lparr>IsLive := False\<rparr>) of
                  (Some err, db1) \<Rightarrow> (db1, [])
                | (None, db1) \<Rightarrow>
                    (snd (dbUpdateFileInfo e db1 (ID video) filePath fileSize),
                     [(ID video, True)]))))"

section \<open>Properties\<close>

subsection \<open>Cadence\<close>

text \<open>
  C7. For every cadence state and clock reading, \<open>calculateInterval\<close> returns five minutes
  when \<open>now - lastChange\<close> is below 24 hours and fifteen minutes otherwise. The result is
  computed from \<open>lastChange\<close> and the clock alone: the stored \<open>interval\<close> (and
  \<open>lastChecked\<close>) do not enter it. At 23h59m after the last change the interval is the
  short one, at 24h00m01s the long one.
\<close>

theorem calculateInterval_cadence:
  "calculateInterval ps now =
     (if now - lastChange ps < 24 * Hour then 5 * Minute else 15 * Minute)
   \<and> calculateInterval (ps\<lparr>interval := i, lastChecked := c\<rparr>) now = calculateInterval ps now
   \<and> calculateInterval ps (lastChange ps + (23 * Hour + 59 * Minute)) = 5 * Minute
   \<and> calculateInterval ps (lastChange ps + (24 * Hour + Second)) = 15 * Minute"
  by (simp add: calculateInterval_def Sub_def maxDuration_def minDuration_def Hour_def
      Minute_def Second_def)

theorem calculateInterval_cadence_witness:
  "calculateInterval \<lparr>lastChecked = 0, lastChange = 1000, interval = 42\<rparr>
     (1000 + 86399 * Second) = 300 * Second
   \<and> calculateInterval \<lparr>lastChecked = 0, lastChange = 1000, interval = 42\<rparr>
     (1000 + 86401 * Second) = 900 * Second"
  using
    calculateInterval_cadence
      [of "\<lparr>lastChecked = 0, lastChange = 1000, interval = 42\<rparr>" "1000 + 86399 * Second"]
    calculateInterval_cadence
      [of "\<lparr>lastChecked = 0, lastChange = 1000, interval = 42\<rparr>" "1000 + 86401 * Second"]
  by (simp add: Hour_def Minute_def Second_def)

subsection \<open>Recording the fetched file\<close>

lemma map_if_absent:
  "k \<notin> set (map f xs) \<Longrightarrow> map (\<lambda>v. if f v = k then g v else v) xs = xs"
  by (induction xs) auto

lemma list_all_map_upd:
  "(\<And>v. P (g v)) \<Longrightarrow>
   list_all (\<lambda>v. f v = k \<longrightarrow> P v) (map (\<lambda>v. if f v = k then g v else v) xs)"
  by (induction xs) auto

lemma UpdateFileInfo_videos:
  "videos (snd (UpdateFileInfo now db youtubeID filePath fileSize)) =
     map (\<lambda>v. if v_youtube_id v = youtubeID
              then v\<lparr>v_file_path := Some filePath, v_file_size := fileSize,
                     v_validation_status := ''valid'', v_last_validated := Some now,
                     v_updated_at := now\<rparr>
              else v) (videos db)"
  by (simp add: UpdateFileInfo_def)

text \<open>
  C9. \<open>UpdateFileInfo\<close> returns no error and touches no playlist; the video rows keep
  their identifiers and order; every row with the given identifier then has the given
  path and size, status valid and the validation timestamp \<open>now\<close>; and when no row has
  the identifier the store is left as it was.
\<close>

theorem UpdateFileInfo_sets_file_info:
  "fst (UpdateFileInfo now db youtubeID filePath fileSize) = None
   \<and> playlists (snd (UpdateFileInfo now db youtubeID filePath fileSize)) = playlists db
   \<and> map v_youtube_id (videos (snd (UpdateFileInfo now db youtubeID filePath fileSize)))
       = map v_youtube_id (videos db)
   \<and> list_all (\<lambda>v. v_youtube_id v = youtubeID \<longrightarrow>
          v_file_path v = Some filePath \<and> v_file_size v = fileSize \<and>
          v_validation_status v = ''valid'' \<and> v_last_validated v = Some now)
        (videos (snd (UpdateFileInfo now db youtubeID filePath fileSize)))
   \<and> (youtubeID \<notin> set (map v_youtube_id (videos db)) \<longrightarrow>
        snd (UpdateFileInfo now db youtubeID filePath fileSize) = db)"
proof (intro conjI impI)
  show "fst (UpdateFileInfo now db youtubeID filePath fileSize) = None"
    by (simp add: UpdateFileInfo_def)
  show "playlists (snd (UpdateFileInfo now db youtubeID filePath fileSize)) = playlists db"
    by (simp add: UpdateFileInfo_def)
  show "map v_youtube_id (videos (snd (UpdateFileInfo now db youtubeID filePath fileSize)))
       = map v_youtube_id (videos db)"
    by (simp add: UpdateFileInfo_def comp_def if_distrib [of v_youtube_id] cong: if_cong)
  show "list_all (\<lambda>v. v_youtube_id v = youtubeID \<longrightarrow>
          v_file_path v = Some filePath \<and> v_file_size v = fileSize \<and>
          v_validation_status v = ''valid'' \<and> v_last_validated v = Some now)
        (videos (snd (UpdateFileInfo now db youtubeID filePath fileSize)))"
    unfolding UpdateFileInfo_videos by (rule list_all_map_upd) simp
  assume "youtubeID \<notin> set (map v_youtube_id (videos db))"
  then show "snd (UpdateFileInfo now db youtubeID filePath fileSize) = db"
    by (simp add: UpdateFileInfo_def map_if_absent)
qed

theorem UpdateFileInfo_sets_file_info_witness:
  "''v2'' \<notin> set (map v_youtube_id [sampleVideo ''v1'' 1 (Some ''.music/Song [v1].mp3'') ''pending''])
   \<and> snd (UpdateFileInfo 7
        \<lparr>playlists = [], videos = [sampleVideo ''v1'' 1 (Some ''.music/Song [v1].mp3'') ''pending''],
         playlist_seq = 0\<rparr> ''v2'' ''/music/Jazz/Song [v2].mp3'' 4096)
       = \<lparr>playlists = [], videos = [sampleVideo ''v1'' 1 (Some ''.music/Song [v1].mp3'') ''pending''],
          playlist_seq = 0\<rparr>
   \<and> map v_file_path (videos (snd (UpdateFileInfo 7
        \<lparr>playlists = [], videos = [sampleVideo ''v1'' 1 (Some ''.music/Song [v1].mp3'') ''pending''],
         playlist_seq = 0\<rparr> ''v1'' ''/music/Jazz/Song [v1].mp3'' 4096))) =
       [Some ''/music/Jazz/Song [v1].mp3'']"
  using
    UpdateFileInfo_sets_file_info
      [of 7 "\<lparr>playlists = [],
               videos = [sampleVideo ''v1'' 1 (Some ''.music/Song [v1].mp3'') ''pending''],
               playlist_seq = 0\<rparr>" "''v2''" "''/music/Jazz/Song [v2].mp3''" 4096]
    UpdateFileInfo_sets_file_info
      [of 7 "\<lparr>playlists = [],
               videos = [sampleVideo ''v1'' 1 (Some ''.music/Song [v1].mp3'') ''pending''],
               playlist_seq = 0\<rparr>" "''v1''" "''/music/Jazz/Song [v1].mp3''" 4096]
  by (simp add: sampleVideo_def UpdateFileInfo_videos)

subsection \<open>The validation sweep\<close>

lemma validateRows_general:
  "distinct (map fst rs) \<Longrightarrow>
   validateRows stat now rs tx checked =
     (checked + length rs,
      tx\<lparr>videos :=
           map (\<lambda>v. case map_of rs (v_youtube_id v) of
                      None \<Rightarrow> v | Some filePath \<Rightarrow> stamp stat now filePath v)
             (videos tx)\<rparr>)"
proof (induction rs arbitrary: tx checked)
  case Nil
  then show ?case by simp
next
  case (Cons r rs)
  obtain y p where r: "r = (y, p)" by (cases r)
  from Cons.prems r have notin: "map_of rs y = None" and d: "distinct (map fst rs)"
    by (auto simp: map_of_eq_None_iff)
  show ?case
    unfolding r validateRows.simps Cons.IH [OF d]
    by (auto simp: stamp_def notin)
qed

lemma rowsWithFile_keys:
  "fst ` set (rowsWithFile \<lparr>playlists = ps, videos = vs, playlist_seq = n\<rparr>)
      \<subseteq> v_youtube_id ` set vs"
  by (auto simp: rowsWithFile_def List.map_filter_def split: option.splits if_splits)

lemma rowsWithFile_map_of:
  "distinct (map v_youtube_id vs) \<Longrightarrow> v \<in> set vs \<Longrightarrow>
   map_of (rowsWithFile \<lparr>playlists = ps, videos = vs, playlist_seq = n\<rparr>) (v_youtube_id v) =
     (if hasFile v then v_file_path v else None)"
proof (induction vs)
  case Nil
  then show ?case by simp
next
  case (Cons a vs)
  have key: "\<And>w. w \<in> set vs \<Longrightarrow> v_youtube_id w \<noteq> v_youtube_id a"
    using Cons.prems(1) by (force simp: image_iff)
  show ?case
  proof (cases "v = a")
    case True
    have "v_youtube_id a \<notin> v_youtube_id ` set vs" using Cons.prems(1) by auto
    with rowsWithFile_keys [of ps vs n]
    have "map_of (rowsWithFile \<lparr>playlists = ps, videos = vs, playlist_seq = n\<rparr>) (v_youtube_id a) = None"
      by (auto simp: map_of_eq_None_iff)
    with True show ?thesis
      by (auto simp: rowsWithFile_def hasFile_def split: option.splits)
  next
    case False
    with Cons.prems have v: "v \<in> set vs" by simp
    with key have ne: "v_youtube_id v \<noteq> v_youtube_id a" by blast
    have ih: "map_of (rowsWithFile \<lparr>playlists = ps, videos = vs, playlist_seq = n\<rparr>) (v_youtube_id v) =
       (if hasFile v then v_file_path v else None)"
      using Cons.IH Cons.prems(1) v by simp
    show ?thesis
      using ih ne
      by (auto simp: rowsWithFile_def split: option.splits)
  qed
qed


lemma rowsWithFile_distinct:
  "distinct (map v_youtube_id vs) \<Longrightarrow>
   distinct (map fst (rowsWithFile \<lparr>playlists = ps, videos = vs, playlist_seq = n\<rparr>))"
proof (induction vs)
  case Nil
  then show ?case by (simp add: rowsWithFile_def)
next
  case (Cons a vs)
  note sub = rowsWithFile_keys [of ps vs n]
  from Cons have ih: "distinct (map fst (rowsWithFile \<lparr>playlists = ps, videos = vs, playlist_seq = n\<rparr>))"
    and na: "v_youtube_id a \<notin> v_youtube_id ` set vs" by auto
  from sub na have "v_youtube_id a \<notin> fst ` set (rowsWithFile \<lparr>playlists = ps, videos = vs, playlist_seq = n\<rparr>)"
    by blast
  with ih show ?case
    by (auto simp: rowsWithFile_def split: option.splits)
qed

lemma rowsWithFile_length:
  "length (rowsWithFile db) = length (filter hasFile (videos db))"
proof -
  have "length (List.map_filter f vs) = length (filter (\<lambda>v. f v \<noteq> None) vs)" for f :: "Video \<Rightarrow> (string \<times> string) option" and vs
    by (simp add: List.map_filter_def)
  moreover have "(\<lambda>v. (case v_file_path v of None \<Rightarrow> None
            | Some filePath \<Rightarrow> if filePath \<noteq> [] then Some (v_youtube_id v, filePath) else None) \<noteq> None) = hasFile"
    by (auto simp: fun_eq_iff hasFile_def split: option.splits)
  ultimately show ?thesis by (simp add: rowsWithFile_def)
qed

lemma validatedRow_stamp:
  "validatedRow stat now v =
     (if hasFile v then stamp stat now (the (v_file_path v)) v else v)"
  by (cases "stat (the (v_file_path v))")
     (auto simp: validatedRow_def hasFile_def stamp_def statusOf_def split: option.splits)

lemma ValidateFiles_result:
  assumes "distinct (map v_youtube_id (videos db))"
  shows "ValidateFiles stat now db =
     (Inr (length (filter hasFile (videos db))),
      db\<lparr>videos := map (validatedRow stat now) (videos db)\<rparr>)"
proof -
  obtain ps vs n where db: "db = \<lparr>playlists = ps, videos = vs, playlist_seq = n\<rparr>"
    by (cases db) auto
  from assms db have d: "distinct (map v_youtube_id vs)" by simp
  have eq: "map (\<lambda>v. case map_of (rowsWithFile db) (v_youtube_id v) of
                      None \<Rightarrow> v | Some filePath \<Rightarrow> stamp stat now filePath v) vs
      = map (validatedRow stat now) vs"
  proof (rule map_cong [OF refl])
    fix v assume "v \<in> set vs"
    from rowsWithFile_map_of [OF d this, of ps n]
    show "(case map_of (rowsWithFile db) (v_youtube_id v) of
                      None \<Rightarrow> v | Some filePath \<Rightarrow> stamp stat now filePath v) = validatedRow stat now v"
      unfolding db validatedRow_stamp by (auto simp: hasFile_def split: option.splits)
  qed
  have "distinct (map fst (rowsWithFile db))"
    unfolding db by (rule rowsWithFile_distinct [OF d])
  from validateRows_general [OF this, of stat now db 0]
  show ?thesis
    using eq by (simp add: ValidateFiles_def rowsWithFile_length db)
qed

text \<open>
  C8. Under the store's uniqueness of video identifiers, \<open>ValidateFiles\<close> returns the
  number of rows that have a file location, and leaves the video table as the given one
  with every such row stamped: status valid, missing or error after the stat of its
  recorded path, and the one reading \<open>now\<close> as \<open>last_validated\<close> and \<open>updated_at\<close> of each
  of them. Rows without a file location and the playlists are untouched.
\<close>

theorem ValidateFiles_sweep:
  assumes "distinct (map v_youtube_id (videos db))"
  shows "ValidateFiles stat now db =
     (Inr (length (filter hasFile (videos db))),
      db\<lparr>videos := map (validatedRow stat now) (videos db)\<rparr>)"
  using assms by (rule ValidateFiles_result)

theorem ValidateFiles_sweep_witness:
  "distinct (map v_youtube_id (videos sampleStore))
   \<and> fst (ValidateFiles sampleStat 99 sampleStore) = Inr 3
   \<and> map v_validation_status (videos (snd (ValidateFiles sampleStat 99 sampleStore)))
       = [''valid'', ''missing'', ''error'', ''pending'']
   \<and> map v_last_validated (videos (snd (ValidateFiles sampleStat 99 sampleStore)))
       = [Some 99, Some 99, Some 99, None]
   \<and> map v_updated_at (videos (snd (ValidateFiles sampleStat 99 sampleStore)))
       = [99, 99, 99, 0]"
proof -
  have d: "distinct (map v_youtube_id (videos sampleStore))"
    by (simp add: sampleStore_def sampleVideo_def)
  show ?thesis
    using d ValidateFiles_sweep [OF d, of sampleStat 99]
    by (simp add: sampleStore_def sampleVideo_def validatedRow_def hasFile_def sampleStat_def)
qed

subsection \<open>Adding a video\<close>

lemma GetOrCreatePlaylist_total:
  "\<exists>p db1. GetOrCreatePlaylist now db youtubeID title = (Inr p, db1) \<and> videos db1 = videos db"
  by (auto simp: GetOrCreatePlaylist_def insertPlaylist_def selectPlaylist_def Let_def
      find_None_iff split: option.splits)

lemma AddVideo_videos:
  "\<exists>playlistID. AddVideo now db youtubeID playlistYoutubeID playlistTitle metadata =
     (None, snd (AddVideo now db youtubeID playlistYoutubeID playlistTitle metadata)) \<and>
   videos (snd (AddVideo now db youtubeID playlistYoutubeID playlistTitle metadata)) =
     upsertVideo now youtubeID playlistID playlistTitle metadata
       (''.music/'' @ sanitizeFilename (Title metadata) @ '' ['' @ youtubeID @ ''].mp3'')
       0 ''pending'' now (videos db)"
proof -
  obtain p db1 where g: "GetOrCreatePlaylist now db playlistYoutubeID playlistTitle = (Inr p, db1)"
    and v: "videos db1 = videos db"
    using GetOrCreatePlaylist_total by blast
  show ?thesis
    by (rule exI [of _ "pl_id p"]) (simp add: AddVideo_def g v Let_def)
qed

lemma map_id_upd:
  "(\<And>v. f (g v) = f v) \<Longrightarrow> map f (map (\<lambda>v. if f v = k then g v else v) xs) = map f xs"
  by (induction xs) auto

lemma upsertVideo_ids:
  "map v_youtube_id
     (upsertVideo now youtubeID playlistID playlistTitle metadata filePath fileSize status validated rows)
   = (if youtubeID \<in> set (map v_youtube_id rows) then map v_youtube_id rows
      else map v_youtube_id rows @ [youtubeID])"
  unfolding upsertVideo_def by (simp add: map_id_upd del: set_map)

lemma upsertVideo_member:
  "youtubeID \<in> set (map v_youtube_id
     (upsertVideo now youtubeID playlistID playlistTitle metadata filePath fileSize status validated rows))"
  unfolding upsertVideo_ids by simp

lemma upsertVideo_row:
  "list_all (\<lambda>v. v_youtube_id v = youtubeID \<longrightarrow>
      v_file_path v = Some filePath \<and> v_file_size v = fileSize \<and>
      v_validation_status v = status \<and> v_last_validated v = Some validated \<and>
      v_metadata v = metadata \<and> v_playlist_id v = playlistID)
     (upsertVideo now youtubeID playlistID playlistTitle metadata filePath fileSize status validated rows)"
proof (cases "youtubeID \<in> set (map v_youtube_id rows)")
  case True
  then show ?thesis
    unfolding upsertVideo_def if_P [OF True] by (intro list_all_map_upd) simp
next
  case False
  then show ?thesis
    by (auto simp: upsertVideo_def list_all_iff)
qed



lemma AddVideo_row:
  "list_all (\<lambda>v. v_youtube_id v = youtubeID \<longrightarrow>
      v_file_path v = Some (generatedPath metadata youtubeID) \<and> v_file_size v = 0 \<and>
      v_validation_status v = ''pending'' \<and> v_last_validated v = Some now)
     (videos (snd (AddVideo now db youtubeID playlistYoutubeID playlistTitle metadata)))"
proof -
  obtain playlistID where
    "videos (snd (AddVideo now db youtubeID playlistYoutubeID playlistTitle metadata)) =
       upsertVideo now youtubeID playlistID playlistTitle metadata
         (generatedPath metadata youtubeID) 0 ''pending'' now (videos db)"
    using AddVideo_videos [of now db youtubeID playlistYoutubeID playlistTitle metadata]
    unfolding generatedPath_def by blast
  then show ?thesis
    using upsertVideo_row [of youtubeID "generatedPath metadata youtubeID" 0 "''pending''" now
        metadata playlistID now playlistTitle "videos db"]
    by (simp add: list_all_iff)
qed

lemma AddVideo_ids:
  "map v_youtube_id (videos (snd (AddVideo now db youtubeID playlistYoutubeID playlistTitle metadata)))
   = (if youtubeID \<in> set (map v_youtube_id (videos db)) then map v_youtube_id (videos db)
      else map v_youtube_id (videos db) @ [youtubeID])"
  using AddVideo_videos [of now db youtubeID playlistYoutubeID playlistTitle metadata]
  by (auto simp: upsertVideo_ids simp del: set_map)





lemma validatedRow_missing:
  "v_file_path v = Some filePath \<Longrightarrow> filePath \<noteq> [] \<Longrightarrow> stat filePath = StatNotExist \<Longrightarrow>
   v_file_path (validatedRow stat now v) = Some filePath \<and>
   v_validation_status (validatedRow stat now v) = ''missing''"
  by (simp add: validatedRow_def)





lemma sanitizeFilename_example: "sanitizeFilename ''  My:  Song?  '' = ''My Song''"
  by code_simp

lemma AddVideo_example:
  "map v_file_path (videos (snd (AddVideo 5 emptyDatabase ''v1'' ''PL1'' ''Jazz''
        (sampleMetadata ''  My:  Song?  '')))) = [Some ''.music/My Song [v1].mp3'']"
  by code_simp


subsection \<open>Parsing the playlist reference\<close>

lemma Contains_sublist: "Contains s sub \<longleftrightarrow> sublist sub s"
  by (induction s) (auto simp: sublist_Cons_right)

lemma splitAcc_not_Nil: "splitAcc sep acc s \<noteq> []"
  by (induction sep acc s rule: splitAcc.induct) auto

lemma splitAcc_hd: "hd (splitAcc sep acc s) = rev acc @ hd (splitAcc sep [] s)"
proof (induction s arbitrary: acc)
  case Nil
  then show ?case by simp
next
  case (Cons c cs)
  show ?case
  proof (cases "sep \<noteq> [] \<and> prefix sep (c # cs)")
    case True
    then show ?thesis by simp
  next
    case False
    then show ?thesis
      using Cons.IH [of "c # acc"] Cons.IH [of "[c]"] by auto
  qed
qed

lemma splitAcc_first:
  "sep \<noteq> [] \<Longrightarrow> \<forall>i<length pre. \<not> prefix sep (drop i (pre @ sep @ rest)) \<Longrightarrow>
   splitAcc sep acc (pre @ sep @ rest) = (rev acc @ pre) # splitAcc sep [] rest"
proof (induction pre arbitrary: acc)
  case Nil
  then obtain c cs where sep: "sep = c # cs" by (cases sep) auto
  show ?case unfolding sep by simp
next
  case (Cons p ps)
  from Cons.prems(2) have np: "\<not> prefix sep (p # ps @ sep @ rest)"
    by (auto dest: spec [of _ 0])
  have "\<forall>i<length ps. \<not> prefix sep (drop i (ps @ sep @ rest))"
    using Cons.prems(2) by (auto dest: spec [of _ "Suc i" for i])
  from Cons.IH [OF Cons.prems(1) this, of "p # acc"] np
  show ?case by simp
qed

lemma splitAcc_hd_no_occurrence:
  "\<forall>i<length pre. \<not> prefix sep (drop i (pre @ rest)) \<Longrightarrow>
   hd (splitAcc sep acc (pre @ rest)) = rev acc @ pre @ hd (splitAcc sep [] rest)"
proof (induction pre arbitrary: acc)
  case Nil
  show ?case using splitAcc_hd [of sep acc rest] by simp
next
  case (Cons p ps)
  from Cons.prems have np: "\<not> prefix sep (p # ps @ rest)"
    by (auto dest: spec [of _ 0])
  have "\<forall>i<length ps. \<not> prefix sep (drop i (ps @ rest))"
    using Cons.prems by (auto dest: spec [of _ "Suc i" for i])
  from Cons.IH [OF this, of "p # acc"] np
  show ?case by simp
qed

lemma splitAcc_single_hd:
  "hd (splitAcc [c] acc s) = rev acc @ takeWhile (\<lambda>x. x \<noteq> c) s"
  by (induction s arbitrary: acc) auto

lemma prefix_shorten:
  "prefix s (xs @ ys @ zs) \<Longrightarrow> length s \<le> length xs + length ys \<Longrightarrow> prefix s (xs @ ys)"
  by (metis append.assoc append_eq_append_conv_if length_append prefix_def take_all_iff prefixI
      prefix_order.dual_order.trans take_is_prefix)

lemma first_occurrence:
  assumes "\<not> Contains (pre @ butlast sep) sep" "sep \<noteq> []"
  shows "\<forall>i<length pre. \<not> prefix sep (drop i (pre @ sep @ rest))"
proof (intro allI impI notI)
  fix i assume i: "i < length pre" and p: "prefix sep (drop i (pre @ sep @ rest))"
  have sep: "sep = butlast sep @ [last sep]" using assms(2) by simp
  from i p have "prefix sep (drop i pre @ butlast sep @ ([last sep] @ rest))"
    using sep by (metis append.assoc drop_append diff_is_0_eq drop0 less_imp_le_nat)
  moreover have "length sep \<le> length (drop i pre) + length (butlast sep)"
    using i assms(2) by (cases sep) auto
  ultimately have "prefix sep (drop i pre @ butlast sep)"
    by (rule prefix_shorten)
  then have "prefix sep (drop i (pre @ butlast sep))" using i by simp
  then have "sublist sep (pre @ butlast sep)"
    unfolding sublist_def prefix_def by (metis append_take_drop_id)
  with assms(1) show False by (simp add: Contains_sublist)
qed

lemma peel_char:
  assumes "t @ rest = c # zs" "rest = [] \<or> hd rest = CHR ''&''" "c \<noteq> CHR ''&''"
  shows "\<exists>t'. t = c # t' \<and> t' @ rest = zs"
  using assms by (cases t) auto

lemma token_no_separator:
  assumes "CHR ''='' \<notin> set tok" "rest = [] \<or> hd rest = CHR ''&''"
  shows "\<forall>i<length tok. \<not> prefix ''list='' (drop i (tok @ rest))"
proof (intro allI impI notI)
  fix i assume i: "i < length tok" and p: "prefix ''list='' (drop i (tok @ rest))"
  define t where "t = drop i tok"
  have t: "t \<noteq> []" "CHR ''='' \<notin> set t"
    using i assms(1) by (auto simp: t_def dest: in_set_dropD)
  from p i have "prefix ''list='' (t @ rest)" by (simp add: t_def)
  then obtain zs where "t @ rest = CHR ''l'' # CHR ''i'' # CHR ''s'' # CHR ''t'' # CHR ''='' # zs"
    by (auto simp: prefix_def)
  from peel_char [OF this assms(2)] obtain t1 where
    t1: "t = CHR ''l'' # t1" "t1 @ rest = CHR ''i'' # CHR ''s'' # CHR ''t'' # CHR ''='' # zs"
    by auto
  from peel_char [OF t1(2) assms(2)] obtain t2 where
    t2: "t1 = CHR ''i'' # t2" "t2 @ rest = CHR ''s'' # CHR ''t'' # CHR ''='' # zs"
    by auto
  from peel_char [OF t2(2) assms(2)] obtain t3 where
    t3: "t2 = CHR ''s'' # t3" "t3 @ rest = CHR ''t'' # CHR ''='' # zs"
    by auto
  from peel_char [OF t3(2) assms(2)] obtain t4 where
    t4: "t3 = CHR ''t'' # t4" "t4 @ rest = CHR ''='' # zs"
    by auto
  from peel_char [OF t4(2) assms(2)] obtain t5 where
    t5: "t4 = CHR ''='' # t5"
    by auto
  from t(2) show False unfolding t1(1) t2(1) t3(1) t4(1) t5 by simp
qed

lemma extractPlaylistID_empty: "extractPlaylistID url = [] \<longleftrightarrow> url = []"
  by (auto simp: extractPlaylistID_def Let_def)

lemma extractPlaylistID_direct:
  "\<not> Contains url ''youtube.com'' \<Longrightarrow> \<not> Contains url ''youtu.be'' \<Longrightarrow> extractPlaylistID url = url"
  by (simp add: extractPlaylistID_def)

lemma takeWhile_until:
  "c \<notin> set xs \<Longrightarrow> takeWhile (\<lambda>x. x \<noteq> c) ys = [] \<Longrightarrow>
   takeWhile (\<lambda>x. x \<noteq> c) (xs @ ys) = xs"
  by (induction xs) auto

lemma extractPlaylistID_token:
  assumes yt: "Contains url ''youtube.com'' \<or> Contains url ''youtu.be''"
    and url: "url = pre @ ''list='' @ tok @ rest"
    and first: "\<not> Contains (pre @ ''list'') ''list=''"
    and tok: "tok \<noteq> []" "CHR ''&'' \<notin> set tok" "CHR ''='' \<notin> set tok"
    and rest: "rest = [] \<or> hd rest = CHR ''&''"
  shows "extractPlaylistID url = tok"
proof -
  have c: "Contains url ''list=''"
    unfolding url Contains_sublist sublist_def by blast
  have "\<forall>i<length pre. \<not> prefix ''list='' (drop i (pre @ ''list='' @ (tok @ rest)))"
    using first_occurrence [of pre "''list=''" "tok @ rest"] first by simp
  then have parts: "Split url ''list='' = pre # splitAcc ''list='' [] (tok @ rest)"
    unfolding Split_def url using splitAcc_first [of "''list=''" pre "tok @ rest" "[]"] by simp
  obtain x xs where tl: "splitAcc ''list='' [] (tok @ rest) = x # xs"
    using splitAcc_not_Nil [of "''list=''" "[]" "tok @ rest"] by (cases "splitAcc ''list='' [] (tok @ rest)") auto
  have "x = hd (splitAcc ''list='' [] (tok @ rest))" by (simp add: tl)
  also have "\<dots> = tok @ hd (splitAcc ''list='' [] rest)"
    using splitAcc_hd_no_occurrence [OF token_no_separator [OF tok(3) rest], of "[]"] by simp
  finally have x: "x = tok @ hd (splitAcc ''list='' [] rest)" .
  have y: "takeWhile (\<lambda>c. c \<noteq> CHR ''&'') (hd (splitAcc ''list='' [] rest)) = []"
  proof (cases rest)
    case Nil
    then show ?thesis by simp
  next
    case (Cons r rs)
    with rest have r: "r = CHR ''&''" by simp
    show ?thesis
      unfolding Cons r using splitAcc_hd [of "''list=''" "[CHR ''&'']" rs] by simp
  qed
  have "takeWhile (\<lambda>c. c \<noteq> CHR ''&'') (tok @ hd (splitAcc ''list='' [] rest)) = tok"
    using tok(2) y by (rule takeWhile_until)
  then have "hd (Split x ''&'') = tok"
    unfolding Split_def x using splitAcc_single_hd [of "CHR ''&''" "[]"] by simp
  with tok(1) c yt show ?thesis
    by (auto simp: extractPlaylistID_def parts tl Let_def)
qed

subsection \<open>Getting or creating the playlist\<close>

lemma selectPlaylist_Some:
  "selectPlaylist db youtubeID = Some p \<Longrightarrow> p \<in> set (playlists db) \<and> pl_youtube_id p = youtubeID"
  by (auto simp: selectPlaylist_def find_Some_iff)

lemma selectPlaylist_None:
  "selectPlaylist db youtubeID = None \<longleftrightarrow> youtubeID \<notin> set (map pl_youtube_id (playlists db))"
  by (auto simp: selectPlaylist_def find_None_iff)

lemma GetOrCreatePlaylist_result:
  "GetOrCreatePlaylist now db youtubeID title =
     (case selectPlaylist db youtubeID of
        Some playlist \<Rightarrow> (Inr playlist, db)
      | None \<Rightarrow>
          (Inr (newPlaylist now (playlist_seq db + 1) youtubeID title),
           db\<lparr>playlists := playlists db @ [newPlaylist now (playlist_seq db + 1) youtubeID title],
              playlist_seq := playlist_seq db + 1\<rparr>))"
proof (cases "selectPlaylist db youtubeID")
  case None
  then have "youtubeID \<notin> set (map pl_youtube_id (playlists db))"
    using selectPlaylist_None by blast
  with None show ?thesis
    by (simp add: GetOrCreatePlaylist_def insertPlaylist_def Let_def newPlaylist_def)
next
  case (Some p)
  then show ?thesis by (simp add: GetOrCreatePlaylist_def)
qed

lemma GetOrCreatePlaylist_present:
  "youtubeID \<in> set (map pl_youtube_id (playlists (snd (GetOrCreatePlaylist now db youtubeID title))))"
  unfolding GetOrCreatePlaylist_result
  by (cases "selectPlaylist db youtubeID")
     (auto simp: newPlaylist_def dest!: selectPlaylist_Some)

lemma GetOrCreatePlaylist_keeps:
  "set (map pl_youtube_id (playlists db))
     \<subseteq> set (map pl_youtube_id (playlists (snd (GetOrCreatePlaylist now db youtubeID title))))"
  unfolding GetOrCreatePlaylist_result
  by (cases "selectPlaylist db youtubeID") auto

lemma AddVideo_keeps_playlists:
  "set (map pl_youtube_id (playlists db))
     \<subseteq> set (map pl_youtube_id (playlists (snd (AddVideo now db youtubeID playlistYoutubeID
          playlistTitle metadata))))"
proof -
  obtain p db1 where g: "GetOrCreatePlaylist now db playlistYoutubeID playlistTitle = (Inr p, db1)"
    using GetOrCreatePlaylist_total by blast
  have "map pl_youtube_id (playlists (snd (AddVideo now db youtubeID playlistYoutubeID
          playlistTitle metadata))) = map pl_youtube_id (playlists db1)"
    by (simp add: AddVideo_def g Let_def map_id_upd)
  with GetOrCreatePlaylist_keeps [of db now playlistYoutubeID playlistTitle] g
  show ?thesis by simp
qed

lemma dbGetOrCreatePlaylist_result:
  "dbGetOrCreatePlaylist e db youtubeID title =
     (case storeFailure e (GetOrCreatePlaylistCall youtubeID) of
        Some err \<Rightarrow> (Inl err, db)
      | None \<Rightarrow>
          (case selectPlaylist db youtubeID of
             Some playlist \<Rightarrow> (Inr playlist, db)
           | None \<Rightarrow>
               (Inr (newPlaylist (clock e) (playlist_seq db + 1) youtubeID title),
                db\<lparr>playlists :=
                     playlists db @ [newPlaylist (clock e) (playlist_seq db + 1) youtubeID title],
                   playlist_seq := playlist_seq db + 1\<rparr>)))"
  by (cases "storeFailure e (GetOrCreatePlaylistCall youtubeID)")
     (simp_all add: dbGetOrCreatePlaylist_def GetOrCreatePlaylist_result)

lemma dbGetOrCreatePlaylist_videos:
  "videos (snd (dbGetOrCreatePlaylist e db youtubeID title)) = videos db"
  by (cases "storeFailure e (GetOrCreatePlaylistCall youtubeID)";
      cases "selectPlaylist db youtubeID")
     (simp_all add: dbGetOrCreatePlaylist_result)

lemma dbAddVideo_Some:
  "dbAddVideo e db youtubeID playlistYoutubeID playlistTitle metadata = (Some err, db1) \<Longrightarrow> db1 = db"
  using AddVideo_videos [of "clock e" db youtubeID playlistYoutubeID playlistTitle metadata]
  by (cases "storeFailure e (AddVideoCall youtubeID)") (auto simp: dbAddVideo_def)

lemma dbAddVideo_playlists:
  "set (map pl_youtube_id (playlists db))
     \<subseteq> set (map pl_youtube_id (playlists (snd (dbAddVideo e db youtubeID playlistYoutubeID
          playlistTitle metadata))))"
  using AddVideo_keeps_playlists [of db "clock e" youtubeID playlistYoutubeID playlistTitle metadata]
  by (cases "storeFailure e (AddVideoCall youtubeID)") (simp_all add: dbAddVideo_def)

lemma dbUpdateFileInfo_ids:
  "map v_youtube_id (videos (snd (dbUpdateFileInfo e db youtubeID filePath fileSize)))
     = map v_youtube_id (videos db)"
  by (simp add: dbUpdateFileInfo_def UpdateFileInfo_def map_id_upd split: option.splits)

lemma dbUpdateFileInfo_playlists:
  "playlists (snd (dbUpdateFileInfo e db youtubeID filePath fileSize)) = playlists db"
  by (simp add: dbUpdateFileInfo_def UpdateFileInfo_def split: option.splits)

text \<open>
  C1. The claim fails on the code. Ingesting the reference \<^verbatim>\<open>PL1\<close> under the name Jazz and
  then under the name Blues leaves one playlist row for \<^verbatim>\<open>PL1\<close>, as claimed, but its title
  is still Jazz: \<open>GetOrCreatePlaylist\<close> returns the stored row whatever title it is given.
\<close>

theorem playlist_title_not_refreshed:
  "map (\<lambda>p. (pl_youtube_id p, pl_title p)) (playlists ingestedOnce) = [(''PL1'', ''Jazz'')]
   \<and> map (\<lambda>p. (pl_youtube_id p, pl_title p)) (playlists ingestedTwice) = [(''PL1'', ''Jazz'')]"
  by code_simp

text \<open>
  The sibling \<open>getOrCreatePlaylist\<close> does update the title of an existing row, and then
  runs into the insert, which the uniqueness of \<^verbatim>\<open>youtube_id\<close> refuses: it returns an error
  for every playlist that exists.
\<close>

lemma getOrCreatePlaylist_existing_fails:
  "fst (getOrCreatePlaylist 9 ingestedOnce ''PL1'' ''Blues'')
     = Inl (Wrapped ''failed to create playlist'' (UniqueConstraint ''playlists.youtube_id''))
   \<and> map (\<lambda>p. (pl_youtube_id p, pl_title p))
        (playlists (snd (getOrCreatePlaylist 9 ingestedOnce ''PL1'' ''Blues'')))
       = [(''PL1'', ''Blues'')]"
  by code_simp

subsection \<open>The item count\<close>

text \<open>
  C2. The claim fails on the code. After one ingestion the count of the playlist equals
  the number of its video rows; after a sweep and a clean-up that delete the row of a
  missing file, the stored count is still 1 while no row is left:
  \<open>CleanupMissingFiles\<close> never recomputes \<^verbatim>\<open>video_count\<close>.
\<close>

theorem cleanup_leaves_video_count_stale:
  "countsOK ingestedOnce
   \<and> map pl_video_count (playlists sweptAndCleaned) = [1]
   \<and> videos sweptAndCleaned = []
   \<and> \<not> countsOK sweptAndCleaned"
  by code_simp

text \<open>
  \<open>AddVideo\<close> recomputes the count of the playlist it is given only: moving a known video
  to another playlist leaves the count of the old one too high.
\<close>

lemma AddVideo_move_leaves_count_stale:
  "\<not> countsOK (snd (AddVideo 9 ingestedOnce ''v1'' ''PL2'' ''Blues'' (sampleMetadata ''v1'')))"
  by code_simp

subsection \<open>The ingestion loop\<close>

lemma processVideos_Cons:
  "processVideos e playlist playlistName (video # rest) db =
     (case processVideo e playlist playlistName video db of
        (db1, call) \<Rightarrow>
          (case processVideos e playlist playlistName rest db1 of
             (db', calls) \<Rightarrow> (db', call @ calls)))"
  by (simp add: processVideo_def split: sum.splits bool.splits prod.splits option.splits)

declare processVideos.simps(2) [simp del]

lemma processVideos_append:
  "processVideos e playlist playlistName (xs @ ys) db =
     (case processVideos e playlist playlistName xs db of
        (db1, calls1) \<Rightarrow>
          (case processVideos e playlist playlistName ys db1 of
             (db2, calls2) \<Rightarrow> (db2, calls1 @ calls2)))"
proof (induction xs arbitrary: db)
  case Nil
  then show ?case by (simp split: prod.splits)
next
  case (Cons x xs)
  show ?case
    unfolding append_Cons processVideos_Cons Cons.IH
    by (simp split: prod.splits)
qed

lemma processVideo_known:
  "storeFailure e (VideoExistsCall (ID video)) = None \<Longrightarrow>
   ID video \<in> set (map v_youtube_id (videos db)) \<Longrightarrow>
   processVideo e playlist playlistName video db = (db, [(ID video, False)])"
  by (simp add: processVideo_def dbVideoExists_def VideoExists_def)

lemma processVideo_fails:
  "itemAbandoned e playlistName video \<Longrightarrow>
   ID video \<notin> set (map v_youtube_id (videos db)) \<Longrightarrow>
   processVideo e playlist playlistName video db = (db, [])"
  by (auto simp: itemAbandoned_def processVideo_def dbVideoExists_def VideoExists_def dbAddVideo_def
      isl_def split: sum.splits option.splits)

lemma processVideo_new:
  assumes "\<not> itemAbandoned e playlistName video"
    and "ID video \<notin> set (map v_youtube_id (videos db))"
  shows "snd (processVideo e playlist playlistName video db) = [(ID video, True)]
    \<and> map v_youtube_id (videos (fst (processVideo e playlist playlistName video db)))
        = map v_youtube_id (videos db) @ [ID video]"
proof -
  from assms(1) obtain filePath fileSize where
    d: "download e (ID video) playlistName = Inr (filePath, fileSize)"
    and s: "storeFailure e (VideoExistsCall (ID video)) = None"
      "storeFailure e (AddVideoCall (ID video)) = None"
    by (cases "download e (ID video) playlistName") (auto simp: itemAbandoned_def)
  let ?a = "AddVideo (clock e) db (ID video) (pl_youtube_id playlist) (pl_title playlist)
                       ((Info video)\<lparr>IsLive := False\<rparr>)"
  obtain db1 where a: "?a = (None, db1)"
    using AddVideo_videos [of "clock e" db "ID video" "pl_youtube_id playlist" "pl_title playlist"
        "(Info video)\<lparr>IsLive := False\<rparr>"] by blast
  then have db1: "db1 = snd ?a" by simp
  have pv: "processVideo e playlist playlistName video db =
      (snd (dbUpdateFileInfo e (snd ?a) (ID video) filePath fileSize), [(ID video, True)])"
    using assms(2) unfolding db1 [symmetric]
    by (simp add: processVideo_def dbVideoExists_def VideoExists_def d s dbAddVideo_def a)
  show ?thesis
    unfolding pv using assms(2) by (simp add: dbUpdateFileInfo_ids AddVideo_ids del: set_map)
qed

lemma processVideo_ids_cases:
  "map v_youtube_id (videos (fst (processVideo e playlist playlistName video db)))
      = map v_youtube_id (videos db)
   \<or> map v_youtube_id (videos (fst (processVideo e playlist playlistName video db)))
      = map v_youtube_id (videos db) @ [ID video]"
proof (cases "ID video \<in> set (map v_youtube_id (videos db))")
  case True
  then show ?thesis
    by (cases "storeFailure e (VideoExistsCall (ID video))")
       (simp_all add: processVideo_def dbVideoExists_def VideoExists_def)
next
  case False
  then show ?thesis
    using processVideo_fails [where e = e and playlistName = playlistName and video = video
          and db = db and playlist = playlist]
      processVideo_new [where e = e and playlistName = playlistName and video = video
          and db = db and playlist = playlist]
    by (cases "itemAbandoned e playlistName video") auto
qed

lemma processVideo_ids_set:
  "set (map v_youtube_id (videos (fst (processVideo e playlist playlistName video db))))
      = set (map v_youtube_id (videos db))
   \<or> set (map v_youtube_id (videos (fst (processVideo e playlist playlistName video db))))
      = insert (ID video) (set (map v_youtube_id (videos db)))"
  using processVideo_ids_cases [of e playlist playlistName video db]
proof
  assume "map v_youtube_id (videos (fst (processVideo e playlist playlistName video db)))
      = map v_youtube_id (videos db)"
  then show ?thesis by (simp only: simp_thms)
next
  assume "map v_youtube_id (videos (fst (processVideo e playlist playlistName video db)))
      = map v_youtube_id (videos db) @ [ID video]"
  then show ?thesis by (simp only: set_append list.set Un_insert_right Un_empty_right simp_thms)
qed

lemma processVideos_ids_subset:
  "set (map v_youtube_id (videos (fst (processVideos e playlist playlistName xs db))))
     \<subseteq> set (map v_youtube_id (videos db)) \<union> ID ` set xs"
proof (induction xs arbitrary: db)
  case Nil
  then show ?case by simp
next
  case (Cons x xs)
  obtain db1 call where p: "processVideo e playlist playlistName x db = (db1, call)"
    by (cases "processVideo e playlist playlistName x db")
  have "set (map v_youtube_id (videos db1)) \<subseteq> set (map v_youtube_id (videos db)) \<union> {ID x}"
    using processVideo_ids_set [of e playlist playlistName x db] unfolding p fst_conv by blast
  moreover obtain db2 calls where q: "processVideos e playlist playlistName xs db1 = (db2, calls)"
    by (cases "processVideos e playlist playlistName xs db1")
  moreover have r: "fst (processVideos e playlist playlistName (x # xs) db) = db2"
    by (simp add: processVideos_Cons p q)
  moreover note Cons.IH [of db1]
  ultimately show ?case
    unfolding r by (simp del: set_map) blast
qed


lemma processVideos_skip:
  assumes "itemAbandoned e playlistName video"
    and "ID video \<notin> set (map v_youtube_id (videos db)) \<union> ID ` set xs"
  shows "processVideos e playlist playlistName (xs @ video # ys) db
     = processVideos e playlist playlistName (xs @ ys) db"
proof -
  obtain db1 calls1 where p: "processVideos e playlist playlistName xs db = (db1, calls1)"
    by (cases "processVideos e playlist playlistName xs db")
  have "ID video \<notin> set (map v_youtube_id (videos db1))"
    using processVideos_ids_subset [of e playlist playlistName xs db] p assms(2) by auto
  from processVideo_fails [OF assms(1) this]
  have "processVideos e playlist playlistName (video # ys) db1
      = processVideos e playlist playlistName ys db1"
    unfolding processVideos_Cons by (simp split: prod.splits)
  then show ?thesis
    unfolding processVideos_append p by simp
qed

lemma listedVideos_ids:
  "map ID (listedVideos playlistURL entries) = filter (\<lambda>i. i \<noteq> []) (map ID entries)"
  by (induction entries) (auto simp: listedVideos_def)

lemma listedVideos_append:
  "listedVideos playlistURL (xs @ ys) = listedVideos playlistURL xs @ listedVideos playlistURL ys"
  by (simp add: listedVideos_def)

lemma ProcessPlaylist_alt:
  "ProcessPlaylist e db playlistURL playlistName =
     (if playlistURL = [] then (Some (InvalidPlaylistURL playlistURL), db, [])
      else
        (case dbGetOrCreatePlaylist e db (extractPlaylistID playlistURL) playlistName of
           (Inl err, db1) \<Rightarrow> (Some (Wrapped ''failed to get or create playlist'' err), db1, [])
         | (Inr playlist, db1) \<Rightarrow>
             (case listing e playlistURL of
                Inl err \<Rightarrow> (Some (Wrapped ''failed to get playlist videos'' err), db1, [])
              | Inr entries \<Rightarrow>
                  (case processVideos e playlist playlistName (listedVideos playlistURL entries) db1 of
                     (db2, calls) \<Rightarrow> (None, db2, calls)))))"
  by (auto simp: ProcessPlaylist_def extractPlaylistID_empty getPlaylistVideos_def listedVideos_def
      Let_def split: prod.splits sum.splits)

lemma processVideo_store_cases:
  "fst (processVideo e playlist playlistName video db) = db
   \<or> (\<exists>filePath fileSize.
        fst (processVideo e playlist playlistName video db) =
          snd (dbUpdateFileInfo e
                (snd (dbAddVideo e db (ID video) (pl_youtube_id playlist) (pl_title playlist)
                       ((Info video)\<lparr>IsLive := False\<rparr>)))
                (ID video) filePath fileSize))"
  by (auto simp: processVideo_def split: sum.splits bool.splits prod.splits option.splits
      dest: dbAddVideo_Some)

lemma processVideo_playlists:
  "set (map pl_youtube_id (playlists db))
     \<subseteq> set (map pl_youtube_id (playlists (fst (processVideo e playlist playlistName video db))))"
  using processVideo_store_cases [of e playlist playlistName video db]
    dbAddVideo_playlists [of db e "ID video" "pl_youtube_id playlist" "pl_title playlist"
      "(Info video)\<lparr>IsLive := False\<rparr>"]
  by (auto simp: dbUpdateFileInfo_playlists simp del: set_map)

lemma processVideos_playlists:
  "set (map pl_youtube_id (playlists db))
     \<subseteq> set (map pl_youtube_id (playlists (fst (processVideos e playlist playlistName xs db))))"
proof (induction xs arbitrary: db)
  case Nil
  then show ?case by simp
next
  case (Cons x xs)
  obtain db1 call where p: "processVideo e playlist playlistName x db = (db1, call)"
    by (cases "processVideo e playlist playlistName x db")
  have "set (map pl_youtube_id (playlists db)) \<subseteq> set (map pl_youtube_id (playlists db1))"
    using processVideo_playlists [of db e playlist playlistName x] unfolding p fst_conv .
  moreover obtain db2 calls where q: "processVideos e playlist playlistName xs db1 = (db2, calls)"
    by (cases "processVideos e playlist playlistName xs db1")
  moreover have r: "fst (processVideos e playlist playlistName (x # xs) db) = db2"
    by (simp add: processVideos_Cons p q)
  moreover note Cons.IH [of db1]
  ultimately show ?case
    unfolding r by (simp del: set_map)
qed

lemma processVideos_all_known:
  "\<forall>v\<in>set xs. ID v \<in> set (map v_youtube_id (videos db)) \<and>
      storeFailure e (VideoExistsCall (ID v)) = None \<Longrightarrow>
   processVideos e playlist playlistName xs db = (db, map (\<lambda>v. (ID v, False)) xs)"
proof (induction xs)
  case Nil
  then show ?case by simp
next
  case (Cons x xs)
  then show ?case
    by (simp add: processVideos_Cons processVideo_known del: set_map)
qed

lemma processVideos_all_new:
  "distinct (map ID xs) \<Longrightarrow> set (map ID xs) \<inter> set (map v_youtube_id (videos db)) = {} \<Longrightarrow>
   \<forall>v\<in>set xs. \<not> itemAbandoned e playlistName v \<Longrightarrow>
   snd (processVideos e playlist playlistName xs db) = map (\<lambda>v. (ID v, True)) xs
   \<and> map v_youtube_id (videos (fst (processVideos e playlist playlistName xs db)))
       = map v_youtube_id (videos db) @ map ID xs"
proof (induction xs arbitrary: db)
  case Nil
  then show ?case by simp
next
  case (Cons x xs)
  obtain db1 call where p: "processVideo e playlist playlistName x db = (db1, call)"
    by (cases "processVideo e playlist playlistName x db")
  have new: "ID x \<notin> set (map v_youtube_id (videos db))" and ok: "\<not> itemAbandoned e playlistName x"
    using Cons.prems by auto
  from processVideo_new [OF ok new, of playlist]
  have c: "call = [(ID x, True)]"
    and i: "map v_youtube_id (videos db1) = map v_youtube_id (videos db) @ [ID x]"
    unfolding p by simp_all
  have "set (map ID xs) \<inter> set (map v_youtube_id (videos db1)) = {}"
    unfolding i using Cons.prems(1,2) by auto
  from Cons.IH [OF _ this] Cons.prems
  have ih: "snd (processVideos e playlist playlistName xs db1) = map (\<lambda>v. (ID v, True)) xs
   \<and> map v_youtube_id (videos (fst (processVideos e playlist playlistName xs db1)))
       = map v_youtube_id (videos db1) @ map ID xs"
    by simp
  obtain db2 calls where q: "processVideos e playlist playlistName xs db1 = (db2, calls)"
    by (cases "processVideos e playlist playlistName xs db1")
  show ?case
    using ih unfolding q by (simp add: processVideos_Cons p q c i)
qed


lemma itemAbandoned_listing [simp]:
  "itemAbandoned (e\<lparr>listing := l\<rparr>) playlistName video = itemAbandoned e playlistName video"
  by (simp add: itemAbandoned_def)

lemma processVideo_listing [simp]:
  "processVideo (e\<lparr>listing := l\<rparr>) playlist playlistName video db
     = processVideo e playlist playlistName video db"
  by (simp add: processVideo_def dbVideoExists_def dbAddVideo_def dbUpdateFileInfo_def
      cong: option.case_cong sum.case_cong prod.case_cong bool.case_cong)

lemma processVideos_listing [simp]:
  "processVideos (e\<lparr>listing := l\<rparr>) playlist playlistName xs db
     = processVideos e playlist playlistName xs db"
  by (induction xs arbitrary: db) (simp_all add: processVideos_Cons)

lemma itemAbandoned_PlaylistID [simp]:
  "itemAbandoned e playlistName (video\<lparr>PlaylistID := x\<rparr>) = itemAbandoned e playlistName video"
  by (simp add: itemAbandoned_def)

subsection \<open>A failed listing\<close>

lemma ProcessPlaylist_listing_failed:
  assumes "playlistURL \<noteq> []"
    and "storeFailure e (GetOrCreatePlaylistCall (extractPlaylistID playlistURL)) = None"
    and "listing e playlistURL = Inl err"
  shows "ProcessPlaylist e db playlistURL playlistName =
     (Some (Wrapped ''failed to get playlist videos'' err),
      (case selectPlaylist db (extractPlaylistID playlistURL) of
         Some playlist \<Rightarrow> db
       | None \<Rightarrow>
           db\<lparr>playlists :=
                playlists db @
                  [newPlaylist (clock e) (playlist_seq db + 1) (extractPlaylistID playlistURL)
                     playlistName],
              playlist_seq := playlist_seq db + 1\<rparr>),
      [])"
  using assms
  by (cases "selectPlaylist db (extractPlaylistID playlistURL)")
     (simp_all add: ProcessPlaylist_alt dbGetOrCreatePlaylist_result)

text \<open>
  C3, as stated, fails: with an empty store and a listing that fails, the call returns
  the error and the store has gained the playlist row of \<^verbatim>\<open>PL1\<close>.
\<close>

theorem listing_failure_creates_playlist:
  "listing offlineEnv ''PL1'' = Inl (External ''yt-dlp failed'')
   \<and> fst (ProcessPlaylist offlineEnv emptyDatabase ''PL1'' ''Jazz'')
       = Some (Wrapped ''failed to get playlist videos'' (External ''yt-dlp failed''))
   \<and> playlists emptyDatabase = []
   \<and> map pl_youtube_id
        (playlists (fst (snd (ProcessPlaylist offlineEnv emptyDatabase ''PL1'' ''Jazz''))))
       = [''PL1'']"
  by code_simp

text \<open>
  C3, amended. In a call whose listing step fails, \<open>ProcessPlaylist\<close> returns the listing's
  error (wrapped), makes no call to the callback, and leaves every video row and every
  existing playlist row as it was; when the store did not have the playlist of the
  reference's identifier, its row has been created before the listing (the supplied name
  as title, a count of zero), and that is the only change.
\<close>

theorem ProcessPlaylist_listing_failure:
  assumes "playlistURL \<noteq> []"
    and "storeFailure e (GetOrCreatePlaylistCall (extractPlaylistID playlistURL)) = None"
    and "listing e playlistURL = Inl err"
  shows "ProcessPlaylist e db playlistURL playlistName =
     (Some (Wrapped ''failed to get playlist videos'' err),
      (case selectPlaylist db (extractPlaylistID playlistURL) of
         Some playlist \<Rightarrow> db
       | None \<Rightarrow>
           db\<lparr>playlists :=
                playlists db @
                  [newPlaylist (clock e) (playlist_seq db + 1) (extractPlaylistID playlistURL)
                     playlistName],
              playlist_seq := playlist_seq db + 1\<rparr>),
      [])"
  using assms by (rule ProcessPlaylist_listing_failed)

theorem ProcessPlaylist_listing_failure_witness:
  "''PL1'' \<noteq> []
   \<and> storeFailure offlineEnv (GetOrCreatePlaylistCall (extractPlaylistID ''PL1'')) = None
   \<and> listing offlineEnv ''PL1'' = Inl (External ''yt-dlp failed'')
   \<and> ProcessPlaylist offlineEnv emptyDatabase ''PL1'' ''Jazz'' =
       (Some (Wrapped ''failed to get playlist videos'' (External ''yt-dlp failed'')),
        \<lparr>playlists = [newPlaylist 5 1 ''PL1'' ''Jazz''], videos = [], playlist_seq = 1\<rparr>, [])
   \<and> ProcessPlaylist offlineEnv ingestedOnce ''PL1'' ''Blues'' =
       (Some (Wrapped ''failed to get playlist videos'' (External ''yt-dlp failed'')),
        ingestedOnce, [])"
proof -
  have a: "''PL1'' \<noteq> []" by simp
  have b: "storeFailure offlineEnv (GetOrCreatePlaylistCall (extractPlaylistID ''PL1'')) = None"
    by (simp add: offlineEnv_def)
  have c: "listing offlineEnv ''PL1'' = Inl (External ''yt-dlp failed'')"
    by (simp add: offlineEnv_def)
  have i: "extractPlaylistID ''PL1'' = ''PL1''" by code_simp
  have s0: "selectPlaylist emptyDatabase ''PL1'' = None" by code_simp
  have s1: "selectPlaylist ingestedOnce ''PL1'' \<noteq> None" by code_simp
  have k: "clock offlineEnv = 5" by (simp add: offlineEnv_def)
  from s1 obtain p where sp: "selectPlaylist ingestedOnce ''PL1'' = Some p" by auto
  have r1: "ProcessPlaylist offlineEnv emptyDatabase ''PL1'' ''Jazz'' =
       (Some (Wrapped ''failed to get playlist videos'' (External ''yt-dlp failed'')),
        \<lparr>playlists = [newPlaylist 5 1 ''PL1'' ''Jazz''], videos = [], playlist_seq = 1\<rparr>, [])"
    using ProcessPlaylist_listing_failure [OF a b c, of emptyDatabase "''Jazz''"]
    unfolding i s0 k by (simp add: emptyDatabase_def)
  have r2: "ProcessPlaylist offlineEnv ingestedOnce ''PL1'' ''Blues'' =
       (Some (Wrapped ''failed to get playlist videos'' (External ''yt-dlp failed'')),
        ingestedOnce, [])"
    using ProcessPlaylist_listing_failure [OF a b c, of ingestedOnce "''Blues''"]
    unfolding i sp by simp
  from a b c r1 r2 show ?thesis by blast
qed

subsection \<open>The invalid reference\<close>

lemma ProcessPlaylist_invalid_iff:
  "(\<exists>u. fst (ProcessPlaylist e db playlistURL playlistName) = Some (InvalidPlaylistURL u))
     \<longleftrightarrow> playlistURL = []"
  by (auto simp: ProcessPlaylist_alt split: prod.splits sum.splits)

lemma ProcessPlaylist_playlist_present:
  assumes "playlistURL \<noteq> []"
    and "storeFailure e (GetOrCreatePlaylistCall (extractPlaylistID playlistURL)) = None"
  shows "extractPlaylistID playlistURL
     \<in> set (map pl_youtube_id (playlists (fst (snd (ProcessPlaylist e db playlistURL playlistName)))))"
proof -
  let ?id = "extractPlaylistID playlistURL"
  obtain p db1 where g: "GetOrCreatePlaylist (clock e) db ?id playlistName = (Inr p, db1)"
    using GetOrCreatePlaylist_total by blast
  have in1: "?id \<in> set (map pl_youtube_id (playlists db1))"
    using GetOrCreatePlaylist_present [of ?id "clock e" db playlistName] g by simp
  have dg: "dbGetOrCreatePlaylist e db ?id playlistName = (Inr p, db1)"
    using assms(2) g by (simp add: dbGetOrCreatePlaylist_def)
  show ?thesis
  proof (cases "listing e playlistURL")
    case (Inl err)
    then show ?thesis using assms(1) in1 by (simp add: ProcessPlaylist_alt dg)
  next
    case (Inr entries)
    obtain db2 calls where
      q: "processVideos e p playlistName (listedVideos playlistURL entries) db1 = (db2, calls)"
      by (cases "processVideos e p playlistName (listedVideos playlistURL entries) db1")
    have "set (map pl_youtube_id (playlists db1)) \<subseteq> set (map pl_youtube_id (playlists db2))"
      using processVideos_playlists [of db1 e p playlistName "listedVideos playlistURL entries"]
      unfolding q fst_conv .
    with in1 have "?id \<in> set (map pl_youtube_id (playlists db2))" by blast
    then show ?thesis using assms(1) by (simp add: ProcessPlaylist_alt dg Inr q del: set_map)
  qed
qed

lemma splitAcc_no_occurrence:
  "\<not> Contains s sep \<Longrightarrow> splitAcc sep acc s = [rev acc @ s]"
  by (induction s arbitrary: acc) auto

lemma extractPlaylistID_main_refuses:
  "\<not> Contains url ''list='' \<Longrightarrow> extractPlaylistID_main url = Inl (InvalidPlaylistURL url)"
  by (simp add: extractPlaylistID_main_def Split_def splitAcc_no_occurrence)

text \<open>
  C4. The claim fails on the code. The reference \<^verbatim>\<open>https://www.youtube.com/watch?v=abc\<close>
  names YouTube and carries no \<^verbatim>\<open>list=\<close> token. \<open>extractPlaylistID\<close> of package downloader
  falls back to the whole reference (its last statement is \<^verbatim>\<open>return url\<close>), so the
  invalid-URL return of \<open>ProcessPlaylist\<close> is not taken: the call returns no error,
  creates a playlist row whose identifier is the whole reference, and stores the listed
  video under it. The \<open>extractPlaylistID\<close> of package main refuses the same reference with
  the invalid-URL error.
\<close>

theorem reference_without_token_accepted:
  "Contains ''https://www.youtube.com/watch?v=abc'' ''youtube.com''
   \<and> \<not> Contains ''https://www.youtube.com/watch?v=abc'' ''list=''
   \<and> extractPlaylistID_main ''https://www.youtube.com/watch?v=abc''
       = Inl (InvalidPlaylistURL ''https://www.youtube.com/watch?v=abc'')
   \<and> extractPlaylistID ''https://www.youtube.com/watch?v=abc''
       = ''https://www.youtube.com/watch?v=abc''
   \<and> fst (ProcessPlaylist oneSong emptyDatabase ''https://www.youtube.com/watch?v=abc'' ''Jazz'')
       = None
   \<and> snd (snd (ProcessPlaylist oneSong emptyDatabase ''https://www.youtube.com/watch?v=abc''
        ''Jazz'')) = [(''v1'', True)]
   \<and> map pl_youtube_id (playlists (fst (snd (ProcessPlaylist oneSong emptyDatabase
        ''https://www.youtube.com/watch?v=abc'' ''Jazz''))))
       = [''https://www.youtube.com/watch?v=abc'']
   \<and> map v_youtube_id (videos (fst (snd (ProcessPlaylist oneSong emptyDatabase
        ''https://www.youtube.com/watch?v=abc'' ''Jazz''))))
       = [''v1'']"
  by code_simp

text \<open>
  The same holds of every non-empty reference without \<^verbatim>\<open>list=\<close>: package main refuses
  it, and \<open>ProcessPlaylist\<close> never answers it with the invalid-URL error, which it keeps
  for the empty reference alone.
\<close>

lemma ProcessPlaylist_guard_unreachable:
  assumes "\<not> Contains playlistURL ''list=''" "playlistURL \<noteq> []"
  shows "extractPlaylistID_main playlistURL = Inl (InvalidPlaylistURL playlistURL)"
    and "fst (ProcessPlaylist e db playlistURL playlistName) \<noteq> Some (InvalidPlaylistURL u)"
  using assms extractPlaylistID_main_refuses [of playlistURL]
    ProcessPlaylist_invalid_iff [of e db playlistURL playlistName]
  by auto

subsection \<open>Per-item failure isolation\<close>

lemma ProcessPlaylist_success:
  assumes "playlistURL \<noteq> []"
    and "storeFailure e (GetOrCreatePlaylistCall (extractPlaylistID playlistURL)) = None"
    and "listing e playlistURL = Inr entries"
  shows "fst (ProcessPlaylist e db playlistURL playlistName) = None"
proof -
  obtain p db1 where
    "GetOrCreatePlaylist (clock e) db (extractPlaylistID playlistURL) playlistName = (Inr p, db1)"
    using GetOrCreatePlaylist_total by blast
  then show ?thesis
    using assms
    by (simp add: ProcessPlaylist_alt dbGetOrCreatePlaylist_def split: prod.splits)
qed

lemma ProcessPlaylist_skip:
  assumes l: "listing e playlistURL = Inr (xs @ video # ys)"
    and f: "itemAbandoned e playlistName video"
    and n: "ID video \<notin> set (map v_youtube_id (videos db)) \<union> ID ` set xs"
  shows "ProcessPlaylist e db playlistURL playlistName =
     ProcessPlaylist (e\<lparr>listing := (listing e)(playlistURL := Inr (xs @ ys))\<rparr>) db playlistURL
       playlistName"
proof (cases "playlistURL = []")
  case True
  then show ?thesis by (simp add: ProcessPlaylist_alt)
next
  case False
  let ?e' = "e\<lparr>listing := (listing e)(playlistURL := Inr (xs @ ys))\<rparr>"
  let ?id = "extractPlaylistID playlistURL"
  have g: "dbGetOrCreatePlaylist ?e' db ?id playlistName = dbGetOrCreatePlaylist e db ?id playlistName"
    by (simp add: dbGetOrCreatePlaylist_def cong: option.case_cong)
  obtain r db1 where d: "dbGetOrCreatePlaylist e db ?id playlistName = (r, db1)"
    by (cases "dbGetOrCreatePlaylist e db ?id playlistName")
  have v1: "videos db1 = videos db"
    using dbGetOrCreatePlaylist_videos [of e db ?id playlistName] d by simp
  show ?thesis
  proof (cases r)
    case (Inl err)
    then show ?thesis using False by (simp add: ProcessPlaylist_alt g d)
  next
    case (Inr p)
    have same: "processVideos e p playlistName (listedVideos playlistURL (xs @ video # ys)) db1
        = processVideos e p playlistName (listedVideos playlistURL (xs @ ys)) db1"
    proof (cases "ID video = []")
      case True
      then show ?thesis by (simp add: listedVideos_def)
    next
      case nonempty: False
      let ?v = "video\<lparr>PlaylistID := ?id\<rparr>"
      have lv: "listedVideos playlistURL (xs @ video # ys)
          = listedVideos playlistURL xs @ ?v # listedVideos playlistURL ys"
        using nonempty by (simp add: listedVideos_def)
      have f': "itemAbandoned e playlistName ?v" using f by (simp add: itemAbandoned_def)
      have "ID ` set (listedVideos playlistURL xs) \<subseteq> ID ` set xs"
        by (auto simp: listedVideos_def)
      with n v1 have n': "ID ?v \<notin> set (map v_youtube_id (videos db1))
          \<union> ID ` set (listedVideos playlistURL xs)"
        by auto
      show ?thesis
        apply (subst lv)
        apply (subst listedVideos_append)
        apply (rule processVideos_skip [OF f' n'])
        done
    qed
    show ?thesis
      using False by (simp add: ProcessPlaylist_alt g d Inr l same)
  qed
qed

lemma ProcessPlaylist_three_items:
  assumes u: "playlistURL \<noteq> []"
    and s: "storeFailure e (GetOrCreatePlaylistCall (extractPlaylistID playlistURL)) = None"
    and l: "listing e playlistURL = Inr [v1, v2, v3]"
    and d: "distinct [ID v1, ID v2, ID v3]" "[] \<notin> set [ID v1, ID v2, ID v3]"
    and n: "set [ID v1, ID v2, ID v3] \<inter> set (map v_youtube_id (videos db)) = {}"
    and ok: "\<not> itemAbandoned e playlistName v1" "itemAbandoned e playlistName v2"
      "\<not> itemAbandoned e playlistName v3"
  shows "fst (ProcessPlaylist e db playlistURL playlistName) = None
    \<and> snd (snd (ProcessPlaylist e db playlistURL playlistName)) = [(ID v1, True), (ID v3, True)]
    \<and> map v_youtube_id (videos (fst (snd (ProcessPlaylist e db playlistURL playlistName))))
        = map v_youtube_id (videos db) @ [ID v1, ID v3]"
proof -
  let ?e' = "e\<lparr>listing := (listing e)(playlistURL := Inr [v1, v3])\<rparr>"
  let ?id = "extractPlaylistID playlistURL"
  have "ProcessPlaylist e db playlistURL playlistName = ProcessPlaylist ?e' db playlistURL playlistName"
    using ProcessPlaylist_skip [of e playlistURL "[v1]" v2 "[v3]" playlistName db] l ok(2) d n
    by auto
  moreover
  obtain p db1 where g: "GetOrCreatePlaylist (clock e) db ?id playlistName = (Inr p, db1)"
    and v1: "videos db1 = videos db"
    using GetOrCreatePlaylist_total by blast
  have dg: "dbGetOrCreatePlaylist ?e' db ?id playlistName = (Inr p, db1)"
    using s g by (simp add: dbGetOrCreatePlaylist_def)
  let ?vs = "listedVideos playlistURL [v1, v3]"
  have ids: "map ID ?vs = [ID v1, ID v3]" using d(2) by (auto simp: listedVideos_ids)
  have nf: "\<forall>v\<in>set ?vs. \<not> itemAbandoned e playlistName v"
    using ok(1,3) d(2) by (simp add: listedVideos_def itemAbandoned_def)
  have "snd (processVideos e p playlistName ?vs db1) = map (\<lambda>v. (ID v, True)) ?vs
     \<and> map v_youtube_id (videos (fst (processVideos e p playlistName ?vs db1)))
        = map v_youtube_id (videos db1) @ map ID ?vs"
  proof (intro processVideos_all_new nf)
    show "distinct (map ID ?vs)" unfolding ids using d(1) by simp
    show "set (map ID ?vs) \<inter> set (map v_youtube_id (videos db1)) = {}"
      unfolding ids v1 using n by (simp del: set_map)
  qed
  then have "snd (processVideos e p playlistName ?vs db1) = map (\<lambda>i. (i, True)) (map ID ?vs)
     \<and> map v_youtube_id (videos (fst (processVideos e p playlistName ?vs db1)))
        = map v_youtube_id (videos db1) @ map ID ?vs"
    by (simp only: map_map comp_def)
  then have "snd (processVideos e p playlistName ?vs db1) = [(ID v1, True), (ID v3, True)]
     \<and> map v_youtube_id (videos (fst (processVideos e p playlistName ?vs db1)))
        = map v_youtube_id (videos db) @ [ID v1, ID v3]"
    unfolding ids v1 by simp
  moreover obtain db2 calls where q: "processVideos e p playlistName ?vs db1 = (db2, calls)"
    by (cases "processVideos e p playlistName ?vs db1")
  moreover have "ProcessPlaylist ?e' db playlistURL playlistName = (None, db2, calls)"
    using u by (simp add: ProcessPlaylist_alt dg q)
  ultimately show ?thesis by simp
qed

lemma upsertVideo_keeps:
  "r \<in> set rows \<Longrightarrow> v_youtube_id r \<noteq> youtubeID \<Longrightarrow>
   r \<in> set (upsertVideo now youtubeID playlistID playlistTitle metadata filePath fileSize status
              validated rows)"
  by (auto simp: upsertVideo_def image_iff intro!: bexI [of _ r])

lemma dbAddVideo_keeps:
  assumes "r \<in> set (videos db)" "v_youtube_id r \<noteq> youtubeID"
  shows "r \<in> set (videos (snd (dbAddVideo e db youtubeID playlistYoutubeID playlistTitle metadata)))"
proof (cases "storeFailure e (AddVideoCall youtubeID)")
  case None
  obtain playlistID where
    "videos (snd (AddVideo (clock e) db youtubeID playlistYoutubeID playlistTitle metadata)) =
     upsertVideo (clock e) youtubeID playlistID playlistTitle metadata
       (''.music/'' @ sanitizeFilename (Title metadata) @ '' ['' @ youtubeID @ ''].mp3'')
       0 ''pending'' (clock e) (videos db)"
    using AddVideo_videos [of "clock e" db youtubeID playlistYoutubeID playlistTitle metadata]
    by blast
  then show ?thesis using None assms by (simp add: dbAddVideo_def upsertVideo_keeps)
next
  case (Some err)
  then show ?thesis using assms by (simp add: dbAddVideo_def)
qed

lemma dbUpdateFileInfo_keeps:
  assumes "r \<in> set (videos db)" "v_youtube_id r \<noteq> youtubeID"
  shows "r \<in> set (videos (snd (dbUpdateFileInfo e db youtubeID filePath fileSize)))"
proof (cases "storeFailure e (UpdateFileInfoCall youtubeID)")
  case None
  then show ?thesis using assms
    by (auto simp: dbUpdateFileInfo_def UpdateFileInfo_def image_iff intro!: bexI [of _ r])
next
  case (Some err)
  then show ?thesis using assms by (simp add: dbUpdateFileInfo_def)
qed

lemma processVideo_keeps_row:
  assumes "r \<in> set (videos db)"
  shows "r \<in> set (videos (fst (processVideo e playlist playlistName video db)))"
proof (cases "ID video \<in> set (map v_youtube_id (videos db))")
  case True
  then show ?thesis using assms
    by (cases "storeFailure e (VideoExistsCall (ID video))")
       (simp_all add: processVideo_def dbVideoExists_def VideoExists_def)
next
  case False
  from False have ne: "v_youtube_id r \<noteq> ID video"
    using imageI [OF assms, of v_youtube_id] by auto
  from processVideo_store_cases [of e playlist playlistName video db]
  show ?thesis
  proof
    assume "fst (processVideo e playlist playlistName video db) = db"
    with assms show ?thesis by simp
  next
    assume "\<exists>filePath fileSize.
        fst (processVideo e playlist playlistName video db) =
          snd (dbUpdateFileInfo e
                (snd (dbAddVideo e db (ID video) (pl_youtube_id playlist) (pl_title playlist)
                       ((Info video)\<lparr>IsLive := False\<rparr>)))
                (ID video) filePath fileSize)"
    then obtain filePath fileSize where
      f: "fst (processVideo e playlist playlistName video db) =
          snd (dbUpdateFileInfo e
                (snd (dbAddVideo e db (ID video) (pl_youtube_id playlist) (pl_title playlist)
                       ((Info video)\<lparr>IsLive := False\<rparr>)))
                (ID video) filePath fileSize)"
      by blast
    show ?thesis
      unfolding f by (intro dbUpdateFileInfo_keeps dbAddVideo_keeps assms ne)
  qed
qed

lemma processVideos_keeps_row:
  "r \<in> set (videos db) \<Longrightarrow>
   r \<in> set (videos (fst (processVideos e playlist playlistName xs db)))"
proof (induction xs arbitrary: db)
  case Nil
  then show ?case by simp
next
  case (Cons x xs)
  obtain db1 call where p: "processVideo e playlist playlistName x db = (db1, call)"
    by (cases "processVideo e playlist playlistName x db")
  obtain db2 calls where q: "processVideos e playlist playlistName xs db1 = (db2, calls)"
    by (cases "processVideos e playlist playlistName xs db1")
  have "r \<in> set (videos db1)"
    using processVideo_keeps_row [OF Cons.prems, of e playlist playlistName x] unfolding p by simp
  from Cons.IH [OF this] show ?case
    unfolding q by (simp add: processVideos_Cons p q)
qed

lemma AddVideo_new_row:
  "\<exists>row\<in>set (videos (snd (AddVideo now db youtubeID playlistYoutubeID playlistTitle metadata))).
      v_youtube_id row = youtubeID
      \<and> v_file_path row = Some (generatedPath metadata youtubeID)
      \<and> v_file_size row = 0 \<and> v_validation_status row = ''pending''"
proof -
  let ?db = "snd (AddVideo now db youtubeID playlistYoutubeID playlistTitle metadata)"
  have "youtubeID \<in> set (map v_youtube_id (videos ?db))"
    unfolding AddVideo_ids by simp
  then obtain row where r: "row \<in> set (videos ?db)" "v_youtube_id row = youtubeID" by auto
  with AddVideo_row [of youtubeID metadata now db playlistYoutubeID playlistTitle]
  show ?thesis by (auto simp: list_all_iff)
qed

lemma processVideo_unrecorded:
  assumes "\<not> itemAbandoned e playlistName video"
    and "fileInfoFails e video"
    and "ID video \<notin> set (map v_youtube_id (videos db))"
  shows "processVideo e playlist playlistName video db =
     (snd (AddVideo (clock e) db (ID video) (pl_youtube_id playlist) (pl_title playlist)
             ((Info video)\<lparr>IsLive := False\<rparr>)),
      [(ID video, True)])"
proof -
  from assms(1) obtain filePath fileSize where
    d: "download e (ID video) playlistName = Inr (filePath, fileSize)"
    and s: "storeFailure e (VideoExistsCall (ID video)) = None"
      "storeFailure e (AddVideoCall (ID video)) = None"
    by (cases "download e (ID video) playlistName") (auto simp: itemAbandoned_def)
  from assms(2) obtain err where u: "storeFailure e (UpdateFileInfoCall (ID video)) = Some err"
    by (auto simp: fileInfoFails_def)
  let ?a = "AddVideo (clock e) db (ID video) (pl_youtube_id playlist) (pl_title playlist)
                       ((Info video)\<lparr>IsLive := False\<rparr>)"
  obtain db1 where a: "?a = (None, db1)"
    using AddVideo_videos [of "clock e" db "ID video" "pl_youtube_id playlist" "pl_title playlist"
        "(Info video)\<lparr>IsLive := False\<rparr>"] by blast
  show ?thesis
    using assms(3)
    by (simp add: processVideo_def dbVideoExists_def VideoExists_def d s dbAddVideo_def a
        dbUpdateFileInfo_def u)
qed

lemma ProcessPlaylist_runs:
  assumes "playlistURL \<noteq> []"
    and "storeFailure e (GetOrCreatePlaylistCall (extractPlaylistID playlistURL)) = None"
    and "listing e playlistURL = Inr entries"
  shows "\<exists>p db1. videos db1 = videos db \<and>
     ProcessPlaylist e db playlistURL playlistName =
       (None, processVideos e p playlistName (listedVideos playlistURL entries) db1)"
proof -
  let ?id = "extractPlaylistID playlistURL"
  obtain p db1 where g: "GetOrCreatePlaylist (clock e) db ?id playlistName = (Inr p, db1)"
    and v1: "videos db1 = videos db"
    using GetOrCreatePlaylist_total by blast
  have dg: "dbGetOrCreatePlaylist e db ?id playlistName = (Inr p, db1)"
    using assms(2) g by (simp add: dbGetOrCreatePlaylist_def)
  have "ProcessPlaylist e db playlistURL playlistName =
       (None, processVideos e p playlistName (listedVideos playlistURL entries) db1)"
    using assms(1,3) by (simp add: ProcessPlaylist_alt dg split: prod.splits)
  with v1 show ?thesis by blast
qed

lemma ProcessPlaylist_unrecorded:
  assumes u: "playlistURL \<noteq> []"
    and s: "storeFailure e (GetOrCreatePlaylistCall (extractPlaylistID playlistURL)) = None"
    and l: "listing e playlistURL = Inr (xs @ video # ys)"
    and i: "ID video \<noteq> []"
    and ok: "\<not> itemAbandoned e playlistName video"
    and f: "fileInfoFails e video"
    and n: "ID video \<notin> set (map v_youtube_id (videos db)) \<union> ID ` set xs"
  shows "(ID video, True) \<in> set (snd (snd (ProcessPlaylist e db playlistURL playlistName)))
    \<and> (\<exists>row\<in>set (videos (fst (snd (ProcessPlaylist e db playlistURL playlistName)))).
          v_youtube_id row = ID video
          \<and> v_file_path row = Some (generatedPath ((Info video)\<lparr>IsLive := False\<rparr>) (ID video))
          \<and> v_file_size row = 0 \<and> v_validation_status row = ''pending'')"
proof -
  let ?id = "extractPlaylistID playlistURL"
  let ?v = "video\<lparr>PlaylistID := ?id\<rparr>"
  from ProcessPlaylist_runs [OF u s l, of db playlistName]
  obtain p db1 where v1: "videos db1 = videos db"
    and run: "ProcessPlaylist e db playlistURL playlistName =
       (None, processVideos e p playlistName (listedVideos playlistURL (xs @ video # ys)) db1)"
    by blast
  have lv: "listedVideos playlistURL (xs @ video # ys)
      = listedVideos playlistURL xs @ ?v # listedVideos playlistURL ys"
    using i by (simp add: listedVideos_def)
  obtain dba callsa where pa: "processVideos e p playlistName (listedVideos playlistURL xs) db1
      = (dba, callsa)"
    by (cases "processVideos e p playlistName (listedVideos playlistURL xs) db1")
  have "ID ` set (listedVideos playlistURL xs) \<subseteq> ID ` set xs"
    by (auto simp: listedVideos_def)
  with n v1 have "ID ?v \<notin> set (map v_youtube_id (videos db1)) \<union> ID ` set (listedVideos playlistURL xs)"
    by auto
  with processVideos_ids_subset [of e p playlistName "listedVideos playlistURL xs" db1]
  have na: "ID ?v \<notin> set (map v_youtube_id (videos dba))"
    unfolding pa fst_conv by blast
  have ok': "\<not> itemAbandoned e playlistName ?v" using ok by simp
  have f': "fileInfoFails e ?v" using f by (simp add: fileInfoFails_def)
  let ?dbb = "snd (AddVideo (clock e) dba (ID video) (pl_youtube_id p) (pl_title p)
             ((Info video)\<lparr>IsLive := False\<rparr>))"
  have pb: "processVideo e p playlistName ?v dba = (?dbb, [(ID video, True)])"
    using processVideo_unrecorded [OF ok' f' na, of p] by simp
  obtain dbc callsc where pc: "processVideos e p playlistName (listedVideos playlistURL ys) ?dbb
      = (dbc, callsc)"
    by (cases "processVideos e p playlistName (listedVideos playlistURL ys) ?dbb")
  have r: "ProcessPlaylist e db playlistURL playlistName
      = (None, dbc, callsa @ (ID video, True) # callsc)"
    unfolding run lv processVideos_append pa
    by (simp add: processVideos_Cons pb pc)
  obtain row where row: "row \<in> set (videos ?dbb)" "v_youtube_id row = ID video"
    "v_file_path row = Some (generatedPath ((Info video)\<lparr>IsLive := False\<rparr>) (ID video))"
    "v_file_size row = 0" "v_validation_status row = ''pending''"
    using AddVideo_new_row [of "clock e" dba "ID video" "pl_youtube_id p" "pl_title p"
        "(Info video)\<lparr>IsLive := False\<rparr>"] by blast
  have "row \<in> set (videos dbc)"
    using processVideos_keeps_row [OF row(1), of e p playlistName "listedVideos playlistURL ys"]
    unfolding pc by simp
  with row show ?thesis unfolding r by auto
qed

text \<open>
  C5, as stated, fails: when the store fails on recording the file of the second of three
  new items (a failure persisting that item), the item is not skipped. Its row stays in
  the store as \<open>AddVideo\<close> made it, with the made-up path, size 0 and status pending, and
  the callback is called with \<open>downloaded = True\<close> for all three items.
\<close>

theorem file_info_failure_not_skipped:
  "listing threeSongsUnrecorded ''PL1''
     = Inr [sampleEntry ''v1'', sampleEntry ''v2'', sampleEntry ''v3'']
   \<and> itemFails threeSongsUnrecorded ''Jazz'' (sampleEntry ''v2'')
   \<and> fst (ProcessPlaylist threeSongsUnrecorded emptyDatabase ''PL1'' ''Jazz'') = None
   \<and> snd (snd (ProcessPlaylist threeSongsUnrecorded emptyDatabase ''PL1'' ''Jazz''))
       = [(''v1'', True), (''v2'', True), (''v3'', True)]
   \<and> map (\<lambda>v. (v_youtube_id v, v_file_path v, v_file_size v, v_validation_status v))
        (videos (fst (snd (ProcessPlaylist threeSongsUnrecorded emptyDatabase ''PL1'' ''Jazz''))))
       = [(''v1'', Some ''/music/Jazz/v1.mp3'', 4096, ''valid''),
          (''v2'', Some ''.music/v2 [v2].mp3'', 0, ''pending''),
          (''v3'', Some ''/music/Jazz/v3.mp3'', 4096, ''valid'')]"
  by code_simp

text \<open>
  C5, amended. When the reference is not empty, the playlist row is obtained and the
  listing succeeds, \<open>ProcessPlaylist\<close> returns no error whatever happens to the items.
  Call an item new when it has no row in the store and is not listed earlier in the same
  listing. A new item that is given up (its existence check, its fetch or adding it to
  the store fails) has no effect at all: the call yields the same store and the same
  callback calls as on the listing without that item. A failure of the store on recording
  the file of a new item with an identifier that is not given up does not skip the item:
  the callback is called with \<open>downloaded = True\<close> for it, and its row is in the store
  with the path made from title and identifier, size 0 and status pending. On a listing
  of three items with distinct identifiers, none in the store, of which the second is
  given up and the others are not, the callback is called with \<open>downloaded = True\<close> for
  the first and the third only, and exactly these two are added to the store.
\<close>

theorem ProcessPlaylist_item_isolation:
  assumes "playlistURL \<noteq> []"
    and "storeFailure e (GetOrCreatePlaylistCall (extractPlaylistID playlistURL)) = None"
    and "listing e playlistURL = Inr entries"
  shows "fst (ProcessPlaylist e db playlistURL playlistName) = None
   \<and> (\<forall>xs video ys.
        entries = xs @ video # ys \<and> itemAbandoned e playlistName video \<and>
        ID video \<notin> set (map v_youtube_id (videos db)) \<union> ID ` set xs \<longrightarrow>
        ProcessPlaylist e db playlistURL playlistName =
          ProcessPlaylist (e\<lparr>listing := (listing e)(playlistURL := Inr (xs @ ys))\<rparr>) db
            playlistURL playlistName)
   \<and> (\<forall>xs video ys.
        entries = xs @ video # ys \<and> ID video \<noteq> [] \<and>
        \<not> itemAbandoned e playlistName video \<and> fileInfoFails e video \<and>
        ID video \<notin> set (map v_youtube_id (videos db)) \<union> ID ` set xs \<longrightarrow>
        (ID video, True) \<in> set (snd (snd (ProcessPlaylist e db playlistURL playlistName))) \<and>
        (\<exists>row\<in>set (videos (fst (snd (ProcessPlaylist e db playlistURL playlistName)))).
           v_youtube_id row = ID video
           \<and> v_file_path row = Some (generatedPath ((Info video)\<lparr>IsLive := False\<rparr>) (ID video))
           \<and> v_file_size row = 0 \<and> v_validation_status row = ''pending''))
   \<and> (\<forall>v1 v2 v3.
        entries = [v1, v2, v3] \<and> distinct [ID v1, ID v2, ID v3] \<and>
        [] \<notin> set [ID v1, ID v2, ID v3] \<and>
        set [ID v1, ID v2, ID v3] \<inter> set (map v_youtube_id (videos db)) = {} \<and>
        \<not> itemAbandoned e playlistName v1 \<and> itemAbandoned e playlistName v2 \<and>
        \<not> itemAbandoned e playlistName v3 \<longrightarrow>
        snd (snd (ProcessPlaylist e db playlistURL playlistName))
          = [(ID v1, True), (ID v3, True)] \<and>
        map v_youtube_id (videos (fst (snd (ProcessPlaylist e db playlistURL playlistName))))
          = map v_youtube_id (videos db) @ [ID v1, ID v3])"
proof (intro conjI allI impI)
  show "fst (ProcessPlaylist e db playlistURL playlistName) = None"
    using assms by (rule ProcessPlaylist_success)
next
  fix xs video ys
  assume h: "entries = xs @ video # ys \<and> itemAbandoned e playlistName video \<and>
        ID video \<notin> set (map v_youtube_id (videos db)) \<union> ID ` set xs"
  with assms(3) have l: "listing e playlistURL = Inr (xs @ video # ys)" by simp
  from h have f: "itemAbandoned e playlistName video"
    and n: "ID video \<notin> set (map v_youtube_id (videos db)) \<union> ID ` set xs"
    by blast+
  show "ProcessPlaylist e db playlistURL playlistName =
          ProcessPlaylist (e\<lparr>listing := (listing e)(playlistURL := Inr (xs @ ys))\<rparr>) db
            playlistURL playlistName"
    by (rule ProcessPlaylist_skip [OF l f n])
next
  fix xs video ys
  assume h: "entries = xs @ video # ys \<and> ID video \<noteq> [] \<and>
        \<not> itemAbandoned e playlistName video \<and> fileInfoFails e video \<and>
        ID video \<notin> set (map v_youtube_id (videos db)) \<union> ID ` set xs"
  with assms(3) have l: "listing e playlistURL = Inr (xs @ video # ys)" by simp
  from h have i: "ID video \<noteq> []" and ok: "\<not> itemAbandoned e playlistName video"
    and f: "fileInfoFails e video"
    and n: "ID video \<notin> set (map v_youtube_id (videos db)) \<union> ID ` set xs"
    by blast+
  from ProcessPlaylist_unrecorded [OF assms(1,2) l i ok f n]
  show "(ID video, True) \<in> set (snd (snd (ProcessPlaylist e db playlistURL playlistName)))"
    and "\<exists>row\<in>set (videos (fst (snd (ProcessPlaylist e db playlistURL playlistName)))).
           v_youtube_id row = ID video
           \<and> v_file_path row = Some (generatedPath ((Info video)\<lparr>IsLive := False\<rparr>) (ID video))
           \<and> v_file_size row = 0 \<and> v_validation_status row = ''pending''"
    by blast+
next
  fix v1 v2 v3
  assume h: "entries = [v1, v2, v3] \<and> distinct [ID v1, ID v2, ID v3] \<and>
        [] \<notin> set [ID v1, ID v2, ID v3] \<and>
        set [ID v1, ID v2, ID v3] \<inter> set (map v_youtube_id (videos db)) = {} \<and>
        \<not> itemAbandoned e playlistName v1 \<and> itemAbandoned e playlistName v2 \<and>
        \<not> itemAbandoned e playlistName v3"
  with assms(3) have l: "listing e playlistURL = Inr [v1, v2, v3]" by simp
  from h have d: "distinct [ID v1, ID v2, ID v3]" "[] \<notin> set [ID v1, ID v2, ID v3]"
    and n: "set [ID v1, ID v2, ID v3] \<inter> set (map v_youtube_id (videos db)) = {}"
    and ok: "\<not> itemAbandoned e playlistName v1" "itemAbandoned e playlistName v2"
      "\<not> itemAbandoned e playlistName v3"
    by blast+
  from ProcessPlaylist_three_items [OF assms(1,2) l d n ok]
  show "snd (snd (ProcessPlaylist e db playlistURL playlistName))
          = [(ID v1, True), (ID v3, True)]"
    and "map v_youtube_id (videos (fst (snd (ProcessPlaylist e db playlistURL playlistName))))
          = map v_youtube_id (videos db) @ [ID v1, ID v3]"
    by blast+
qed

theorem ProcessPlaylist_item_isolation_witness:
  "''PL1'' \<noteq> []
   \<and> storeFailure threeSongs (GetOrCreatePlaylistCall (extractPlaylistID ''PL1'')) = None
   \<and> listing threeSongs ''PL1'' = Inr [sampleEntry ''v1'', sampleEntry ''v2'', sampleEntry ''v3'']
   \<and> \<not> itemAbandoned threeSongs ''Jazz'' (sampleEntry ''v1'')
   \<and> itemAbandoned threeSongs ''Jazz'' (sampleEntry ''v2'')
   \<and> \<not> itemAbandoned threeSongs ''Jazz'' (sampleEntry ''v3'')
   \<and> fst (ProcessPlaylist threeSongs emptyDatabase ''PL1'' ''Jazz'') = None
   \<and> ProcessPlaylist threeSongs emptyDatabase ''PL1'' ''Jazz''
       = ProcessPlaylist
          (threeSongs\<lparr>listing := (listing threeSongs)
              (''PL1'' := Inr ([sampleEntry ''v1''] @ [sampleEntry ''v3'']))\<rparr>)
          emptyDatabase ''PL1'' ''Jazz''
   \<and> snd (snd (ProcessPlaylist threeSongs emptyDatabase ''PL1'' ''Jazz''))
       = [(''v1'', True), (''v3'', True)]
   \<and> map v_youtube_id (videos (fst (snd (ProcessPlaylist threeSongs emptyDatabase ''PL1'' ''Jazz''))))
       = [''v1'', ''v3'']
   \<and> storeFailure threeSongsUnrecorded (GetOrCreatePlaylistCall (extractPlaylistID ''PL1'')) = None
   \<and> listing threeSongsUnrecorded ''PL1''
       = Inr [sampleEntry ''v1'', sampleEntry ''v2'', sampleEntry ''v3'']
   \<and> \<not> itemAbandoned threeSongsUnrecorded ''Jazz'' (sampleEntry ''v2'')
   \<and> fileInfoFails threeSongsUnrecorded (sampleEntry ''v2'')
   \<and> (''v2'', True)
       \<in> set (snd (snd (ProcessPlaylist threeSongsUnrecorded emptyDatabase ''PL1'' ''Jazz'')))
   \<and> (\<exists>row\<in>set (videos (fst (snd (ProcessPlaylist threeSongsUnrecorded emptyDatabase ''PL1''
                    ''Jazz'')))).
         v_youtube_id row = ''v2''
         \<and> v_file_path row
             = Some (generatedPath ((Info (sampleEntry ''v2''))\<lparr>IsLive := False\<rparr>) ''v2'')
         \<and> v_file_size row = 0 \<and> v_validation_status row = ''pending'')"
proof -
  have a: "''PL1'' \<noteq> []" by simp
  have b: "storeFailure threeSongs (GetOrCreatePlaylistCall (extractPlaylistID ''PL1'')) = None"
    by (simp add: threeSongs_def sampleEnv_def)
  have c: "listing threeSongs ''PL1'' = Inr [sampleEntry ''v1'', sampleEntry ''v2'', sampleEntry ''v3'']"
    by (simp add: threeSongs_def sampleEnv_def)
  have f: "\<not> itemAbandoned threeSongs ''Jazz'' (sampleEntry ''v1'')"
    "itemAbandoned threeSongs ''Jazz'' (sampleEntry ''v2'')"
    "\<not> itemAbandoned threeSongs ''Jazz'' (sampleEntry ''v3'')"
    by (simp_all add: itemAbandoned_def threeSongs_def sampleEnv_def sampleEntry_def)
  have i: "ID (sampleEntry x) = x" for x by (simp add: sampleEntry_def)
  have v: "videos emptyDatabase = []" by (simp add: emptyDatabase_def)
  note t = ProcessPlaylist_item_isolation [OF a b c, of emptyDatabase "''Jazz''"]
  from t have r1: "fst (ProcessPlaylist threeSongs emptyDatabase ''PL1'' ''Jazz'') = None"
    by blast
  from t have "[sampleEntry ''v1'', sampleEntry ''v2'', sampleEntry ''v3'']
        = [sampleEntry ''v1'', sampleEntry ''v2'', sampleEntry ''v3''] \<and>
      distinct [ID (sampleEntry ''v1''), ID (sampleEntry ''v2''), ID (sampleEntry ''v3'')] \<and>
      [] \<notin> set [ID (sampleEntry ''v1''), ID (sampleEntry ''v2''), ID (sampleEntry ''v3'')] \<and>
      set [ID (sampleEntry ''v1''), ID (sampleEntry ''v2''), ID (sampleEntry ''v3'')]
        \<inter> set (map v_youtube_id (videos emptyDatabase)) = {} \<and>
      \<not> itemAbandoned threeSongs ''Jazz'' (sampleEntry ''v1'') \<and>
      itemAbandoned threeSongs ''Jazz'' (sampleEntry ''v2'') \<and>
      \<not> itemAbandoned threeSongs ''Jazz'' (sampleEntry ''v3'') \<longrightarrow>
      snd (snd (ProcessPlaylist threeSongs emptyDatabase ''PL1'' ''Jazz''))
        = [(ID (sampleEntry ''v1''), True), (ID (sampleEntry ''v3''), True)] \<and>
      map v_youtube_id (videos (fst (snd (ProcessPlaylist threeSongs emptyDatabase ''PL1'' ''Jazz''))))
        = map v_youtube_id (videos emptyDatabase) @ [ID (sampleEntry ''v1''), ID (sampleEntry ''v3'')]"
    by blast
  with f have r2: "snd (snd (ProcessPlaylist threeSongs emptyDatabase ''PL1'' ''Jazz''))
        = [(''v1'', True), (''v3'', True)] \<and>
      map v_youtube_id (videos (fst (snd (ProcessPlaylist threeSongs emptyDatabase ''PL1'' ''Jazz''))))
        = [''v1'', ''v3'']"
    unfolding i v by simp
  from t have "[sampleEntry ''v1'', sampleEntry ''v2'', sampleEntry ''v3'']
        = [sampleEntry ''v1''] @ sampleEntry ''v2'' # [sampleEntry ''v3''] \<and>
      itemAbandoned threeSongs ''Jazz'' (sampleEntry ''v2'') \<and>
      ID (sampleEntry ''v2'') \<notin> set (map v_youtube_id (videos emptyDatabase))
         \<union> ID ` set [sampleEntry ''v1''] \<longrightarrow>
      ProcessPlaylist threeSongs emptyDatabase ''PL1'' ''Jazz''
       = ProcessPlaylist
          (threeSongs\<lparr>listing := (listing threeSongs)
              (''PL1'' := Inr ([sampleEntry ''v1''] @ [sampleEntry ''v3'']))\<rparr>)
          emptyDatabase ''PL1'' ''Jazz''"
    by blast
  with f(2) have r3: "ProcessPlaylist threeSongs emptyDatabase ''PL1'' ''Jazz''
       = ProcessPlaylist
          (threeSongs\<lparr>listing := (listing threeSongs)
              (''PL1'' := Inr ([sampleEntry ''v1''] @ [sampleEntry ''v3'']))\<rparr>)
          emptyDatabase ''PL1'' ''Jazz''"
    by (simp add: i v)
  have b': "storeFailure threeSongsUnrecorded (GetOrCreatePlaylistCall (extractPlaylistID ''PL1''))
      = None"
    by (simp add: threeSongsUnrecorded_def sampleEnv_def)
  have c': "listing threeSongsUnrecorded ''PL1''
      = Inr [sampleEntry ''v1'', sampleEntry ''v2'', sampleEntry ''v3'']"
    by (simp add: threeSongsUnrecorded_def sampleEnv_def)
  have g: "\<not> itemAbandoned threeSongsUnrecorded ''Jazz'' (sampleEntry ''v2'')"
    "fileInfoFails threeSongsUnrecorded (sampleEntry ''v2'')"
    by (simp_all add: itemAbandoned_def fileInfoFails_def threeSongsUnrecorded_def sampleEnv_def
        sampleEntry_def)
  note t' = ProcessPlaylist_item_isolation [OF a b' c', of emptyDatabase "''Jazz''"]
  from t' have "[sampleEntry ''v1'', sampleEntry ''v2'', sampleEntry ''v3'']
        = [sampleEntry ''v1''] @ sampleEntry ''v2'' # [sampleEntry ''v3''] \<and>
      ID (sampleEntry ''v2'') \<noteq> [] \<and>
      \<not> itemAbandoned threeSongsUnrecorded ''Jazz'' (sampleEntry ''v2'') \<and>
      fileInfoFails threeSongsUnrecorded (sampleEntry ''v2'') \<and>
      ID (sampleEntry ''v2'') \<notin> set (map v_youtube_id (videos emptyDatabase))
         \<union> ID ` set [sampleEntry ''v1''] \<longrightarrow>
      (ID (sampleEntry ''v2''), True)
        \<in> set (snd (snd (ProcessPlaylist threeSongsUnrecorded emptyDatabase ''PL1'' ''Jazz''))) \<and>
      (\<exists>row\<in>set (videos (fst (snd (ProcessPlaylist threeSongsUnrecorded emptyDatabase ''PL1''
                    ''Jazz'')))).
         v_youtube_id row = ID (sampleEntry ''v2'')
         \<and> v_file_path row
             = Some (generatedPath ((Info (sampleEntry ''v2''))\<lparr>IsLive := False\<rparr>)
                 (ID (sampleEntry ''v2'')))
         \<and> v_file_size row = 0 \<and> v_validation_status row = ''pending'')"
    by blast
  with g have r4: "(''v2'', True)
       \<in> set (snd (snd (ProcessPlaylist threeSongsUnrecorded emptyDatabase ''PL1'' ''Jazz''))) \<and>
     (\<exists>row\<in>set (videos (fst (snd (ProcessPlaylist threeSongsUnrecorded emptyDatabase ''PL1''
                    ''Jazz'')))).
         v_youtube_id row = ''v2''
         \<and> v_file_path row
             = Some (generatedPath ((Info (sampleEntry ''v2''))\<lparr>IsLive := False\<rparr>) ''v2'')
         \<and> v_file_size row = 0 \<and> v_validation_status row = ''pending'')"
    by (simp add: i v)
  from a b c f r1 r2 r3 b' c' g r4 show ?thesis by blast
qed

subsection \<open>Running the ingestion again\<close>












end
